theory Spec2Isabelle
  imports Complex_Main "HOL-Library.Log_Nat"
begin

section \<open>JavaScript numbers and dates\<close>

text \<open>
  A JavaScript number is a binary64 value: a finite value, \<open>NaN\<close> or one of the two
  infinities. A finite value is kept as the rational it denotes, and the arithmetic
  rounds its exact result to binary64 (to nearest, ties to even), as IEEE 754 has it.
  The sign of a zero is not kept: no comparison tells the two zeros apart. Comparisons
  follow IEEE 754: every comparison with \<open>NaN\<close> is false.
\<close>

datatype jsnum = Number rat | NaN | PosInfinity | NegInfinity

fun Number_isFinite :: "jsnum \<Rightarrow> bool" where
  "Number_isFinite (Number _) = True"
| "Number_isFinite _ = False"

fun js_lt :: "jsnum \<Rightarrow> jsnum \<Rightarrow> bool" where
  "js_lt NaN _ = False"
| "js_lt _ NaN = False"
| "js_lt (Number a) (Number b) = (a < b)"
| "js_lt _ NegInfinity = False"
| "js_lt NegInfinity _ = True"
| "js_lt PosInfinity _ = False"
| "js_lt _ PosInfinity = True"

fun js_ge :: "jsnum \<Rightarrow> jsnum \<Rightarrow> bool" where
  "js_ge NaN _ = False"
| "js_ge _ NaN = False"
| "js_ge (Number a) (Number b) = (b \<le> a)"
| "js_ge _ NegInfinity = True"
| "js_ge NegInfinity _ = False"
| "js_ge PosInfinity _ = True"
| "js_ge _ PosInfinity = False"

text \<open>\<open>ilog2 a\<close> is the integer \<open>e\<close> with \<open>2^e \<le> a < 2^(e+1)\<close>, for a positive \<open>a\<close>.\<close>

definition ilog2 :: "rat \<Rightarrow> int" where
  "ilog2 a = (case quotient_of a of (p, q) \<Rightarrow>
                (let d = bitlen p - bitlen q in if 2 powi d \<le> a then d else d - 1))"

definition round_half_even :: "rat \<Rightarrow> int" where
  "round_half_even y =
     (let f = \<lfloor>y\<rfloor> in
      if y - of_int f < 1 / 2 then f
      else if 1 / 2 < y - of_int f then f + 1
      else if even f then f else f + 1)"

text \<open>
  Rounding to binary64: 53 significant bits, the least exponent of a quantum -1074 (the
  subnormal numbers), and an infinity for a result of magnitude \<open>2^1024\<close> or more.
\<close>

definition binary64 :: "rat \<Rightarrow> jsnum" where
  "binary64 x =
     (if x = 0 then Number 0
      else
        (let a = \<bar>x\<bar>;
             e = ilog2 a;
             q = 2 powi (max (e - 52) (- 1074));
             r = of_int (round_half_even (a / q)) * q
         in if 2 powi 1024 \<le> r then (if 0 < x then PosInfinity else NegInfinity)
            else Number (if 0 < x then r else - r)))"

fun js_sub :: "jsnum \<Rightarrow> jsnum \<Rightarrow> jsnum" where
  "js_sub NaN _ = NaN"
| "js_sub _ NaN = NaN"
| "js_sub (Number a) (Number b) = binary64 (a - b)"
| "js_sub PosInfinity PosInfinity = NaN"
| "js_sub NegInfinity NegInfinity = NaN"
| "js_sub PosInfinity _ = PosInfinity"
| "js_sub NegInfinity _ = NegInfinity"
| "js_sub _ PosInfinity = NegInfinity"
| "js_sub _ NegInfinity = PosInfinity"

text \<open>Division by a positive finite constant (here always \<open>1e3\<close>).\<close>

fun js_div_pos :: "jsnum \<Rightarrow> rat \<Rightarrow> jsnum" where
  "js_div_pos (Number a) d = binary64 (a / d)"
| "js_div_pos x d = x"

text \<open>
  A \<open>Date\<close> holds a time value in milliseconds, or is an invalid date, whose
  \<open>getTime()\<close> is \<open>NaN\<close>.
\<close>

datatype Date = Date int | InvalidDate

fun getTime :: "Date \<Rightarrow> jsnum" where
  "getTime (Date t) = Number (of_int t)"
| "getTime InvalidDate = NaN"

section \<open>Data model\<close>

record OAuthClientMetadata =
  application_type :: string
  grant_types :: "string list"

record ClientInfo =
  isFirstParty :: bool

record Client =
  client_id :: string
  metadata :: OAuthClientMetadata
  client_info :: ClientInfo

text \<open>
  \<open>ClientAuth\<close>: how the client authenticated. \<open>{method: 'none'}\<close> has no key material;
  the JWT bearer method carries \<open>kid\<close>, \<open>alg\<close> and \<open>jkt\<close>.
\<close>

record ClientAuth =
  auth_method :: string
  kid :: "string option"
  alg :: "string option"
  jkt :: "string option"

record OAuthAuthorizationRequestParameters =
  prompt :: "string option"
  login_hint :: "string option"
  code_challenge :: "string option"
  scope :: "string option"
  redirect_uri :: "string option"
  dpop_jkt :: "string option"

record Account =
  sub :: string
  preferred_username :: "string option"
  aud :: string

record DeviceAccountInfo =
  authenticatedAt :: Date
  authorizedClients :: "string list"

section \<open>Errors\<close>

text \<open>
  One constructor per error class thrown or inspected by the provider. The description
  argument is \<open>None\<close> where the source leaves it to the class's default. \<open>Error\<close>
  stands for every other thrown value (a plain \<open>Error\<close>, a failure of a store).
  A \<open>ZodError\<close> carries its issues, each a path and a message.
\<close>

datatype error =
    InvalidGrantError "string option" "error option"
  | InvalidClientError "string option" "error option"
  | InvalidRequestError "string option" "error option"
  | UnauthorizedClientError "string option"
  | WWWAuthenticateError string "string option" string
  | AccessDeniedError OAuthAuthorizationRequestParameters "string option" "string option" "error option"
  | LoginRequiredError OAuthAuthorizationRequestParameters "string option"
  | ConsentRequiredError OAuthAuthorizationRequestParameters "string option"
  | AccountSelectionRequiredError OAuthAuthorizationRequestParameters "string option"
  | InvalidParametersError OAuthAuthorizationRequestParameters "string option"
  | HttpError nat string
  | ZodError "(string list \<times> string) list"
  | Error string

text \<open>
  Modelled from the spec: the class hierarchy and the OAuth error codes of the error
  classes (\<open>errors/*.ts\<close> is not among the sources). The user-interaction errors, which
  are built from the authorization request parameters, are \<open>AccessDeniedError\<close> and its
  subclasses; section 7 of the specification lists the codes, and its section 8 gives
  \<open>invalid_request\<close> for a replayed request object.
\<close>

fun instanceof_AccessDeniedError :: "error \<Rightarrow> bool" where
  "instanceof_AccessDeniedError (AccessDeniedError _ _ _ _) = True"
| "instanceof_AccessDeniedError (LoginRequiredError _ _) = True"
| "instanceof_AccessDeniedError (ConsentRequiredError _ _) = True"
| "instanceof_AccessDeniedError (AccountSelectionRequiredError _ _) = True"
| "instanceof_AccessDeniedError (InvalidParametersError _ _) = True"
| "instanceof_AccessDeniedError _ = False"

fun instanceof_WWWAuthenticateError :: "error \<Rightarrow> bool" where
  "instanceof_WWWAuthenticateError (WWWAuthenticateError _ _ _) = True"
| "instanceof_WWWAuthenticateError _ = False"

fun wwwAuthenticateHeader :: "error \<Rightarrow> string" where
  "wwwAuthenticateHeader (WWWAuthenticateError _ _ h) = h"
| "wwwAuthenticateHeader _ = []"

fun error_code :: "error \<Rightarrow> string" where
  "error_code (InvalidGrantError _ _) = ''invalid_grant''"
| "error_code (InvalidClientError _ _) = ''invalid_client''"
| "error_code (InvalidRequestError _ _) = ''invalid_request''"
| "error_code (UnauthorizedClientError _) = ''unauthorized_client''"
| "error_code (WWWAuthenticateError c _ _) = c"
| "error_code (AccessDeniedError _ _ c _) = (case c of None \<Rightarrow> ''access_denied'' | Some c' \<Rightarrow> c')"
| "error_code (LoginRequiredError _ _) = ''login_required''"
| "error_code (ConsentRequiredError _ _) = ''consent_required''"
| "error_code (AccountSelectionRequiredError _ _) = ''account_selection_required''"
| "error_code (InvalidParametersError _ _) = ''invalid_request''"
| "error_code (HttpError _ _) = ''server_error''"
| "error_code (ZodError _) = ''server_error''"
| "error_code (Error _) = ''server_error''"

text \<open>The \<open>error_description\<close> property; \<open>None\<close> is the class's default text.\<close>

fun error_description :: "error \<Rightarrow> string option" where
  "error_description (InvalidGrantError d _) = d"
| "error_description (InvalidClientError d _) = d"
| "error_description (InvalidRequestError d _) = d"
| "error_description (UnauthorizedClientError d) = d"
| "error_description (WWWAuthenticateError _ d _) = d"
| "error_description (AccessDeniedError _ d _ _) = d"
| "error_description (LoginRequiredError _ d) = d"
| "error_description (ConsentRequiredError _ d) = d"
| "error_description (AccountSelectionRequiredError _ d) = d"
| "error_description (InvalidParametersError _ d) = d"
| "error_description (HttpError _ d) = Some d"
| "error_description (ZodError _) = None"
| "error_description (Error d) = Some d"

text \<open>
  Modelled from the spec: \<open>AccessDeniedError.from\<close> (\<open>errors/access-denied-error.ts\<close> is
  not among the sources). Section 7 has the authorization endpoint wrap an error into an
  access-denied error that carries the request parameters, so that the client can be
  notified by redirect; scenario S4 shows that a user-interaction error such as
  \<open>login_required\<close> reaches the client as it is. The third argument is the error code
  given to the wrapper.
\<close>

definition AccessDeniedError_from ::
  "OAuthAuthorizationRequestParameters \<Rightarrow> error \<Rightarrow> string option \<Rightarrow> error" where
  "AccessDeniedError_from parameters cause fallback =
     (if instanceof_AccessDeniedError cause then cause
      else AccessDeniedError parameters (error_description cause) fallback (Some cause))"

section \<open>Effects: errors, state and the calls to the collaborators\<close>

text \<open>
  The provider's collaborators (the managers over the stores) are parameters of the
  model. A call to one of them is a function of the world \<open>'w\<close> (the stores, the clock)
  that returns either the thrown error or the value, and the new world. The state of a
  run also records, in \<open>trace\<close>, every call made to a collaborator, in order, and the
  HTTP response under construction.
\<close>

datatype json = JObject "(string \<times> json) list" | JString string | JNumber int | JBool bool | JNull

record ServerResponse =
  headers :: "(string \<times> string) list"
  headersSent :: bool
  statusCode :: "nat option"
  body :: "json option"
  destroyed :: bool

datatype event =
    GetClient string
  | VerifyCredentials string
  | DecodeRequestObject string string
  | AuthJwkThumbprint string
  | UniqueAuth string string
  | UniqueJar string string
  | UniqueCodeChallenge string
  | CreateAuthorizationRequest string ClientAuth OAuthAuthorizationRequestParameters "string option" "string option"
  | RequestGet string string "string option"
  | RequestDelete string
  | SetAuthorized string string string string
  | FindCode string ClientAuth string
  | AccountList string
  | AccountGet string string
  | TokenCreate string string
  | TokenRefresh string
  | TokenRevoke string
  | ClientTokenInfo string string
  | NextDpopNonce
  | SetTimeout int
  | OnError error string

record 'w st =
  trace :: "event list"
  res :: ServerResponse
  world :: 'w

type_synonym ('a, 'w) io = "'w \<Rightarrow> (error + 'a) \<times> 'w"
type_synonym ('a, 'w) prog = "'w st \<Rightarrow> (error + 'a) \<times> 'w st"

definition ret :: "'a \<Rightarrow> ('a, 'w) prog" where
  "ret x = (\<lambda>s. (Inr x, s))"

definition throw :: "error \<Rightarrow> ('a, 'w) prog" where
  "throw e = (\<lambda>s. (Inl e, s))"

text \<open>\<open>bnd m f\<close>: await \<open>m\<close>, then continue with \<open>f\<close>; an error of \<open>m\<close> propagates.\<close>

definition bnd :: "('a, 'w) prog \<Rightarrow> ('a \<Rightarrow> ('b, 'w) prog) \<Rightarrow> ('b, 'w) prog" where
  "bnd m f = (\<lambda>s. case m s of (Inl e, s') \<Rightarrow> (Inl e, s') | (Inr x, s') \<Rightarrow> f x s')"

text \<open>\<open>try { m } catch (err) { h err }\<close>.\<close>

definition catch :: "('a, 'w) prog \<Rightarrow> (error \<Rightarrow> ('a, 'w) prog) \<Rightarrow> ('a, 'w) prog" where
  "catch m h = (\<lambda>s. case m s of (Inl e, s') \<Rightarrow> h e s' | (Inr x, s') \<Rightarrow> (Inr x, s'))"

text \<open>\<open>promise.catch(handler)\<close>, where the handler may be \<open>null\<close>.\<close>

definition catch_opt :: "('a, 'w) prog \<Rightarrow> (error \<Rightarrow> ('a, 'w) prog) option \<Rightarrow> ('a, 'w) prog" where
  "catch_opt m h = (case h of None \<Rightarrow> m | Some h' \<Rightarrow> catch m h')"

text \<open>A call to a collaborator: recorded in the trace, run on the world.\<close>

definition call :: "event \<Rightarrow> ('a, 'w) io \<Rightarrow> ('a, 'w) prog" where
  "call ev f = (\<lambda>s. case f (world s) of (r, w') \<Rightarrow> (r, s\<lparr>trace := trace s @ [ev], world := w'\<rparr>))"

text \<open>The outcome of a synchronous parser (a schema's \<open>parse\<close>): it throws or returns.\<close>

definition lift :: "error + 'a \<Rightarrow> ('a, 'w) prog" where
  "lift r = (case r of Inl e \<Rightarrow> throw e | Inr x \<Rightarrow> ret x)"

definition gets :: "('w \<Rightarrow> 'a) \<Rightarrow> ('a, 'w) prog" where
  "gets f = (\<lambda>s. (Inr (f (world s)), s))"

text \<open>JavaScript truthiness of an optional string: present and not empty.\<close>

fun truthy :: "string option \<Rightarrow> bool" where
  "truthy None = False"
| "truthy (Some v) = (v \<noteq> [])"

text \<open>The string held by an optional string (the empty string for a missing one).\<close>

fun string_of :: "string option \<Rightarrow> string" where
  "string_of None = []"
| "string_of (Some v) = v"

section \<open>The collaborators\<close>

record OAuthClientCredentials =
  cred_client_id :: string
  client_assertion :: "string option"

record ProtectedHeader =
  header_kid :: "string option"
  header_alg :: string

text \<open>
  The result of \<open>client.decodeRequestObject\<close>: the payload with its \<open>jti\<close>, and either a
  protected header with the verification key (a signed request object), or a plain
  header (an unsigned one), or neither.
\<close>

datatype RequestObjectKind = Signed ProtectedHeader string | Unsigned | Neither

record 'p RequestObject =
  payload_jti :: "string option"
  payload_claims :: 'p
  kind :: RequestObjectKind

record RequestInfo =
  ri_uri :: string
  ri_expiresAt :: Date
  ri_clientId :: string
  ri_clientAuth :: ClientAuth
  ri_parameters :: OAuthAuthorizationRequestParameters

record CodeInfo =
  code_sub :: string
  code_deviceId :: string
  code_parameters :: OAuthAuthorizationRequestParameters

record TokenData =
  td_parameters :: OAuthAuthorizationRequestParameters
  td_clientId :: string
  td_details :: "string option"
  td_expiresAt :: Date
  td_updatedAt :: Date

record TokenInfo =
  ti_id :: string
  ti_data :: TokenData
  ti_account :: Account

record OAuthTokenResponse =
  access_token :: string
  refresh_token :: "string option"

datatype OAuthTokenRequest =
    AuthorizationCodeGrant string "string option"
  | RefreshTokenGrant string
  | OtherGrant string

fun grant_type :: "OAuthTokenRequest \<Rightarrow> string" where
  "grant_type (AuthorizationCodeGrant _ _) = ''authorization_code''"
| "grant_type (RefreshTokenGrant _) = ''refresh_token''"
| "grant_type (OtherGrant g) = g"

text \<open>
  \<open>ClientManager\<close>, with the two methods of \<open>Client\<close> that verify signatures
  (\<open>verifyCredentials\<close>, \<open>decodeRequestObject\<close>) and \<open>authJwkThumbprint\<close>.
\<close>

record ('p, 'w) ClientManager =
  getClient :: "string \<Rightarrow> (Client, 'w) io"
  verifyCredentials :: "Client \<Rightarrow> OAuthClientCredentials \<Rightarrow> string \<Rightarrow> (ClientAuth \<times> string option, 'w) io"
  decodeRequestObject :: "Client \<Rightarrow> string \<Rightarrow> ('p RequestObject, 'w) io"
  authJwkThumbprint :: "string \<Rightarrow> (string, 'w) io"

record 'w ReplayManager =
  uniqueAuth :: "string \<Rightarrow> string \<Rightarrow> (bool, 'w) io"
  uniqueJar :: "string \<Rightarrow> string \<Rightarrow> (bool, 'w) io"
  uniqueCodeChallenge :: "string \<Rightarrow> (bool, 'w) io"

record 'w RequestManager =
  createAuthorizationRequest ::
    "Client \<Rightarrow> ClientAuth \<Rightarrow> OAuthAuthorizationRequestParameters \<Rightarrow> string option \<Rightarrow> string option
       \<Rightarrow> (RequestInfo, 'w) io"
  request_get :: "string \<Rightarrow> string \<Rightarrow> string option \<Rightarrow> (RequestInfo, 'w) io"
  request_delete :: "string \<Rightarrow> (unit, 'w) io"
  setAuthorized :: "string \<Rightarrow> Client \<Rightarrow> Account \<Rightarrow> string \<Rightarrow> string \<Rightarrow> (string, 'w) io"
  findCode :: "Client \<Rightarrow> ClientAuth \<Rightarrow> string \<Rightarrow> (CodeInfo, 'w) io"

record 'w AccountManager =
  account_list :: "string \<Rightarrow> ((Account \<times> DeviceAccountInfo) list, 'w) io"
  account_get :: "string \<Rightarrow> string \<Rightarrow> (Account \<times> DeviceAccountInfo, 'w) io"

record 'w TokenManager =
  token_create ::
    "Client \<Rightarrow> ClientAuth \<Rightarrow> string \<Rightarrow> Account \<Rightarrow> string \<times> DeviceAccountInfo
       \<Rightarrow> OAuthAuthorizationRequestParameters \<Rightarrow> OAuthTokenRequest \<Rightarrow> string option
       \<Rightarrow> (OAuthTokenResponse, 'w) io"
  token_refresh ::
    "Client \<Rightarrow> ClientAuth \<Rightarrow> string \<Rightarrow> OAuthTokenRequest \<Rightarrow> string option \<Rightarrow> (OAuthTokenResponse, 'w) io"
  token_revoke :: "string \<Rightarrow> (unit, 'w) io"
  clientTokenInfo :: "Client \<Rightarrow> ClientAuth \<Rightarrow> string \<Rightarrow> (TokenInfo, 'w) io"

text \<open>
  The provider: its configuration, its managers, and what it takes from modules that
  are not among the sources: the clock (\<open>Date.now\<close>, \<open>setTimeout\<close>), the schemas
  (\<open>codeSchema\<close>, \<open>requestUriSchema\<close>, the authorization request parameters' schema), the
  date helpers, \<open>nextDpopNonce\<close> of the verifier, and the collation that sorts the scopes
  shown on the consent page.
\<close>

record ('p, 'w) OAuthProvider =
  issuer :: string
  authenticationMaxAge :: jsnum
  grant_types_supported :: "string list option"
  clientManager :: "('p, 'w) ClientManager"
  replayManager :: "'w ReplayManager"
  requestManager :: "'w RequestManager"
  accountManager :: "'w AccountManager"
  tokenManager :: "'w TokenManager"
  Date_now :: "'w \<Rightarrow> int"
  setTimeout :: "int \<Rightarrow> 'w \<Rightarrow> 'w"
  nextDpopNonce :: "'w \<Rightarrow> string option \<times> 'w"
  codeSchema :: "string \<Rightarrow> error + string"
  requestUriSchema :: "string \<Rightarrow> error + string"
  oauthAuthorizationRequestParametersSchema :: "'p \<Rightarrow> error + OAuthAuthorizationRequestParameters"
  dateToEpoch :: "Date \<Rightarrow> jsnum"
  dateToRelativeSeconds :: "Date \<Rightarrow> 'w \<Rightarrow> jsnum"
  sortedScopes :: "string \<Rightarrow> string list"

section \<open>Session freshness\<close>

text \<open>
  \<open>loginRequired\<close> (lines 360 to 374). \<open>now\<close> is the value of \<open>Date.now()\<close>, an
  integral number of milliseconds; \<open>maxAge\<close> is \<open>this.authenticationMaxAge\<close>, with which
  the age, a number of seconds, is compared.
\<close>

definition loginRequired ::
  "jsnum \<Rightarrow> int \<Rightarrow> Client \<Rightarrow> OAuthAuthorizationRequestParameters \<Rightarrow> DeviceAccountInfo \<Rightarrow> bool" where
  "loginRequired maxAge now client parameters info =
     (let authAge = js_div_pos (js_sub (Number (of_int now)) (getTime (authenticatedAt info))) 1000
      in if \<not> Number_isFinite authAge \<or> js_lt authAge (Number 0) then True
         else js_ge authAge maxAge)"

section \<open>Client authentication and request objects\<close>

text \<open>\<open>authenticateClient\<close> (lines 376 to 411).\<close>

definition authenticateClient ::
  "('p, 'w) OAuthProvider \<Rightarrow> OAuthClientCredentials \<Rightarrow> (Client \<times> ClientAuth, 'w) prog" where
  \<open>authenticateClient this credentials =
     bnd (call (GetClient (cred_client_id credentials))
            (getClient (clientManager this) (cred_client_id credentials))) (\<lambda>client.
     bnd (call (VerifyCredentials (client_id client))
            (verifyCredentials (clientManager this) client credentials (issuer this))) (\<lambda>(clientAuth, nonce).
       if application_type (metadata client) = ''native'' \<and> auth_method clientAuth \<noteq> ''none''
       then throw (InvalidGrantError (Some ''Native clients must authenticate using "none" method'') None)
       else
         bnd (case nonce of
                None \<Rightarrow> ret ()
              | Some n \<Rightarrow>
                  bnd (call (UniqueAuth n (client_id client))
                         (uniqueAuth (replayManager this) n (client_id client))) (\<lambda>unique.
                    if \<not> unique
                    then throw (InvalidGrantError (Some (auth_method clientAuth @ '' jti reused'')) None)
                    else ret ())) (\<lambda>_.
         ret (client, clientAuth))))\<close>

text \<open>The two shapes of the value \<open>decodeJAR\<close> returns.\<close>

datatype DecodedJAR =
    DecodedUnsigned OAuthAuthorizationRequestParameters
  | DecodedSigned OAuthAuthorizationRequestParameters ProtectedHeader string

fun decoded_payload :: "DecodedJAR \<Rightarrow> OAuthAuthorizationRequestParameters" where
  "decoded_payload (DecodedUnsigned p) = p"
| "decoded_payload (DecodedSigned p _ _) = p"

text \<open>\<open>decodeJAR\<close> (lines 413 to 468); \<open>request\<close> is \<open>input.request\<close>.\<close>

definition decodeJAR :: "('p, 'w) OAuthProvider \<Rightarrow> Client \<Rightarrow> string \<Rightarrow> (DecodedJAR, 'w) prog" where
  \<open>decodeJAR this client request =
     bnd (call (DecodeRequestObject (client_id client) request)
            (decodeRequestObject (clientManager this) client request)) (\<lambda>result.
     bnd (lift (oauthAuthorizationRequestParametersSchema this (payload_claims result))) (\<lambda>payload.
       if \<not> truthy (payload_jti result)
       then throw (InvalidParametersError payload (Some ''Request object must contain a jti claim''))
       else
         bnd (call (UniqueJar (string_of (payload_jti result)) (client_id client))
                (uniqueJar (replayManager this) (string_of (payload_jti result)) (client_id client))) (\<lambda>unique.
           if \<not> unique
           then throw (InvalidParametersError payload (Some ''Request object jti is not unique''))
           else
             (case kind result of
                Signed protectedHeader key \<Rightarrow>
                  if \<not> truthy (header_kid protectedHeader)
                  then throw (InvalidParametersError payload (Some ''Missing "kid" in header''))
                  else bnd (call (AuthJwkThumbprint key) (authJwkThumbprint (clientManager this) key))
                         (\<lambda>thumbprint. ret (DecodedSigned payload protectedHeader thumbprint))
              | Unsigned \<Rightarrow> ret (DecodedUnsigned payload)
              | Neither \<Rightarrow> throw (Error ''Invalid request object'')))))\<close>

section \<open>Pushed authorization requests\<close>

datatype OAuthAuthorizationRequestPar =
    ParJar string
  | ParParameters OAuthAuthorizationRequestParameters

record OAuthParResponse =
  request_uri :: string
  expires_in :: jsnum

text \<open>The \<open>try\<close> block of \<open>pushedAuthorizationRequest\<close> (lines 479 to 498).\<close>

definition pushedAuthorizationRequest_try ::
  "('p, 'w) OAuthProvider \<Rightarrow> OAuthClientCredentials \<Rightarrow> OAuthAuthorizationRequestPar \<Rightarrow> string option
     \<Rightarrow> (OAuthParResponse, 'w) prog" where
  "pushedAuthorizationRequest_try this credentials authorizationRequest dpopJkt =
     bnd (authenticateClient this credentials) (\<lambda>(client, clientAuth).
     bnd (case authorizationRequest of
            ParJar request \<Rightarrow> bnd (decodeJAR this client request) (\<lambda>d. ret (decoded_payload d))
          | ParParameters p \<Rightarrow> ret p) (\<lambda>parameters.
     bnd (call (CreateAuthorizationRequest (client_id client) clientAuth parameters None dpopJkt)
            (createAuthorizationRequest (requestManager this) client clientAuth parameters None dpopJkt)) (\<lambda>r.
     bnd (gets (dateToRelativeSeconds this (ri_expiresAt r))) (\<lambda>seconds.
     ret \<lparr>request_uri = ri_uri r, expires_in = seconds\<rparr>))))"

text \<open>\<open>pushedAuthorizationRequest\<close> (lines 473 to 509).\<close>

definition pushedAuthorizationRequest ::
  "('p, 'w) OAuthProvider \<Rightarrow> OAuthClientCredentials \<Rightarrow> OAuthAuthorizationRequestPar \<Rightarrow> string option
     \<Rightarrow> (OAuthParResponse, 'w) prog" where
  "pushedAuthorizationRequest this credentials authorizationRequest dpopJkt =
     catch (pushedAuthorizationRequest_try this credentials authorizationRequest dpopJkt) (\<lambda>err.
       if instanceof_AccessDeniedError err
       then throw (InvalidRequestError (error_description err) (Some err))
       else throw err)"

section \<open>The authorization endpoint\<close>

text \<open>Lines 1671 to 1681 and 1664 to 1669.\<close>

fun join :: "string \<Rightarrow> string list \<Rightarrow> string" where
  "join sep [] = []"
| "join sep [x] = x"
| "join sep (x # y # ys) = x @ sep @ join sep (y # ys)"

fun extractZodErrorMessage :: "error \<Rightarrow> string option" where
  \<open>extractZodErrorMessage (ZodError ((part # path, message) # _)) =
     Some (''Validation of "'' @ join ''.'' path @ ''" '' @ part @ '' parameter failed: '' @ message)\<close>
| "extractZodErrorMessage _ = None"

definition throwInvalidRequest :: "error \<Rightarrow> ('a, 'w) prog" where
  "throwInvalidRequest err =
     throw (InvalidRequestError
       (Some (if truthy (extractZodErrorMessage err) then string_of (extractZodErrorMessage err)
              else ''Input validation error'')) (Some err))"

datatype OAuthAuthorizationRequestQuery =
    QueryRequestUri string
  | QueryJar string
  | QueryParameters OAuthAuthorizationRequestParameters

definition CLIENT_ASSERTION_TYPE_JWT_BEARER :: string where
  "CLIENT_ASSERTION_TYPE_JWT_BEARER = ''urn:ietf:params:oauth:client-assertion-type:jwt-bearer''"

definition auth_none :: ClientAuth where
  "auth_none = \<lparr>auth_method = ''none'', kid = None, alg = None, jkt = None\<rparr>"

text \<open>\<open>processAuthorizationRequest\<close> (lines 511 to 562).\<close>

definition processAuthorizationRequest ::
  "('p, 'w) OAuthProvider \<Rightarrow> Client \<Rightarrow> string \<Rightarrow> OAuthAuthorizationRequestQuery \<Rightarrow> (RequestInfo, 'w) prog" where
  "processAuthorizationRequest this client deviceId query =
     (case query of
        QueryRequestUri u \<Rightarrow>
          bnd (catch (lift (requestUriSchema this u)) throwInvalidRequest) (\<lambda>requestUri.
            call (RequestGet requestUri deviceId (Some (client_id client)))
              (request_get (requestManager this) requestUri deviceId (Some (client_id client))))
      | QueryJar request \<Rightarrow>
          bnd (decodeJAR this client request) (\<lambda>requestObject.
            case requestObject of
              DecodedSigned payload protectedHeader thumbprint \<Rightarrow>
                (let clientAuth = \<lparr>auth_method = CLIENT_ASSERTION_TYPE_JWT_BEARER,
                                   kid = header_kid protectedHeader,
                                   alg = Some (header_alg protectedHeader),
                                   jkt = Some thumbprint\<rparr>
                 in call (CreateAuthorizationRequest (client_id client) clientAuth payload (Some deviceId) None)
                      (createAuthorizationRequest (requestManager this) client clientAuth payload
                         (Some deviceId) None))
            | DecodedUnsigned payload \<Rightarrow>
                call (CreateAuthorizationRequest (client_id client) auth_none payload (Some deviceId) None)
                  (createAuthorizationRequest (requestManager this) client auth_none payload
                     (Some deviceId) None))
      | QueryParameters p \<Rightarrow>
          call (CreateAuthorizationRequest (client_id client) auth_none p (Some deviceId) None)
            (createAuthorizationRequest (requestManager this) client auth_none p (Some deviceId) None))"

text \<open>\<open>deleteRequest\<close> (lines 564 to 573).\<close>

definition deleteRequest ::
  "('p, 'w) OAuthProvider \<Rightarrow> string \<Rightarrow> OAuthAuthorizationRequestParameters \<Rightarrow> (unit, 'w) prog" where
  "deleteRequest this requestUri parameters =
     catch (call (RequestDelete requestUri) (request_delete (requestManager this) requestUri))
       (\<lambda>err. throw (AccessDeniedError_from parameters err None))"

record Session =
  s_account :: Account
  s_info :: DeviceAccountInfo
  s_selected :: bool
  s_loginRequired :: bool
  s_consentRequired :: bool
  s_matchesHint :: bool

text \<open>The closure \<open>matchesHint\<close> of \<open>getSessions\<close> (lines 708 to 710).\<close>

definition matchesHint :: "string option \<Rightarrow> Account \<Rightarrow> bool" where
  "matchesHint hint account =
     ((sub account \<noteq> [] \<and> Some (sub account) = hint) \<or>
      (truthy (preferred_username account) \<and> preferred_username account = hint))"

text \<open>
  The sessions \<open>getSessions\<close> builds from the accounts of the device (lines 712 to 738);
  \<open>now\<close> is the value of \<open>Date.now()\<close> read by \<open>loginRequired\<close>.
\<close>

definition sessionsOf ::
  "('p, 'w) OAuthProvider \<Rightarrow> int \<Rightarrow> Client \<Rightarrow> OAuthAuthorizationRequestParameters
     \<Rightarrow> (Account \<times> DeviceAccountInfo) list \<Rightarrow> Session list" where
  "sessionsOf this now client parameters accounts =
     (let hint = login_hint parameters in
      map (\<lambda>(account, info).
        \<lparr>s_account = account,
         s_info = info,
         s_selected =
           (prompt parameters \<noteq> Some ''select_account'' \<and>
            matchesHint hint account \<and>
            foldl (\<lambda>acc a. acc + (if matchesHint hint (fst a) then 1 else 0)) (0::nat) accounts = 1),
         s_loginRequired =
           (prompt parameters = Some ''login'' \<or>
            loginRequired (authenticationMaxAge this) now client parameters info),
         s_consentRequired =
           (prompt parameters = Some ''consent'' \<or>
            client_id client \<notin> set (authorizedClients info)),
         s_matchesHint = (hint = None \<or> matchesHint hint account)\<rparr>) accounts)"

text \<open>\<open>getSessions\<close> (lines 688 to 739).\<close>

definition getSessions ::
  "('p, 'w) OAuthProvider \<Rightarrow> Client \<Rightarrow> ClientAuth \<Rightarrow> string \<Rightarrow> OAuthAuthorizationRequestParameters
     \<Rightarrow> (Session list, 'w) prog" where
  "getSessions this client clientAuth deviceId parameters =
     bnd (call (AccountList deviceId) (account_list (accountManager this) deviceId)) (\<lambda>accounts.
     bnd (gets (Date_now this)) (\<lambda>now.
     ret (sessionsOf this now client parameters accounts)))"

datatype AuthorizationResult =
    AuthorizationResultRedirect string Client OAuthAuthorizationRequestParameters string
  | AuthorizationResultAuthorize string Client OAuthAuthorizationRequestParameters
      string "Session list" "string list option"

text \<open>The \<open>try\<close> block of \<open>authorize\<close> (lines 606 to 678).\<close>

definition authorize_try ::
  "('p, 'w) OAuthProvider \<Rightarrow> Client \<Rightarrow> ClientAuth \<Rightarrow> OAuthAuthorizationRequestParameters \<Rightarrow> string
     \<Rightarrow> string \<Rightarrow> string \<Rightarrow> (AuthorizationResult, 'w) prog" where
  "authorize_try this client clientAuth parameters uri deviceId deviceMetadata =
     bnd (getSessions this client clientAuth deviceId parameters) (\<lambda>sessions.
       if prompt parameters = Some ''none'' then
         (let ssoSessions = filter s_matchesHint sessions in
          if length ssoSessions > 1 then throw (AccountSelectionRequiredError parameters None)
          else if length ssoSessions < 1 then throw (LoginRequiredError parameters None)
          else
            (let ssoSession = ssoSessions ! 0 in
             if s_loginRequired ssoSession then throw (LoginRequiredError parameters None)
             else if s_consentRequired ssoSession then throw (ConsentRequiredError parameters None)
             else
               bnd (call (SetAuthorized uri (client_id client) (sub (s_account ssoSession)) deviceId)
                      (setAuthorized (requestManager this) uri client (s_account ssoSession)
                         deviceId deviceMetadata)) (\<lambda>code.
               ret (AuthorizationResultRedirect (issuer this) client parameters code))))
       else
         (let authorizePage =
                ret (AuthorizationResultAuthorize (issuer this) client parameters uri sessions
                       (map_option (sortedScopes this) (scope parameters)))
          in
          if prompt parameters = None \<and> login_hint parameters \<noteq> None then
            (let ssoSessions = filter s_matchesHint sessions in
             if length ssoSessions = 1 then
               (let ssoSession = ssoSessions ! 0 in
                if \<not> s_loginRequired ssoSession \<and> \<not> s_consentRequired ssoSession then
                  bnd (call (SetAuthorized uri (client_id client) (sub (s_account ssoSession)) deviceId)
                         (setAuthorized (requestManager this) uri client (s_account ssoSession)
                            deviceId deviceMetadata)) (\<lambda>code.
                  ret (AuthorizationResultRedirect (issuer this) client parameters code))
                else authorizePage)
             else authorizePage)
          else authorizePage))"

text \<open>
  The handler \<open>accessDeniedCatcher\<close> of \<open>authorize\<close> (lines 588 to 594): \<open>null\<close> unless
  the query carries a \<open>redirect_uri\<close>, which only a query of plain parameters can.
\<close>

definition accessDeniedCatcher ::
  "OAuthAuthorizationRequestQuery \<Rightarrow> (error \<Rightarrow> ('a, 'w) prog) option" where
  "accessDeniedCatcher query =
     (case query of
        QueryParameters q \<Rightarrow>
          if redirect_uri q \<noteq> None
          then Some (\<lambda>err. throw (AccessDeniedError_from q err (Some ''invalid_request'')))
          else None
      | _ \<Rightarrow> None)"

text \<open>\<open>authorize\<close> (lines 578 to 686).\<close>

definition authorize ::
  "('p, 'w) OAuthProvider \<Rightarrow> OAuthClientCredentials \<Rightarrow> OAuthAuthorizationRequestQuery \<Rightarrow> string
     \<Rightarrow> string \<Rightarrow> (AuthorizationResult, 'w) prog" where
  "authorize this clientCredentials query deviceId deviceMetadata =
     bnd (catch_opt (call (GetClient (cred_client_id clientCredentials))
                       (getClient (clientManager this) (cred_client_id clientCredentials)))
            (accessDeniedCatcher query)) (\<lambda>client.
     bnd (catch_opt (processAuthorizationRequest this client deviceId query)
            (accessDeniedCatcher query)) (\<lambda>r.
       catch (authorize_try this client (ri_clientAuth r) (ri_parameters r) (ri_uri r)
                deviceId deviceMetadata)
         (\<lambda>err. bnd (deleteRequest this (ri_uri r) (ri_parameters r)) (\<lambda>_.
                 throw (AccessDeniedError_from (ri_parameters r) err None)))))"

section \<open>The token endpoint\<close>

fun input_code :: "OAuthTokenRequest \<Rightarrow> string" where
  "input_code (AuthorizationCodeGrant c _) = c"
| "input_code _ = []"

text \<open>The \<open>try\<close> block of \<open>codeGrant\<close> (lines 915 to 960).\<close>

definition codeGrant_try ::
  "('p, 'w) OAuthProvider \<Rightarrow> Client \<Rightarrow> ClientAuth \<Rightarrow> string \<Rightarrow> OAuthTokenRequest \<Rightarrow> string option
     \<Rightarrow> (OAuthTokenResponse, 'w) prog" where
  "codeGrant_try this client clientAuth clientMetadata input dpopJkt =
     bnd (lift (codeSchema this (input_code input))) (\<lambda>code.
     bnd (call (FindCode (client_id client) clientAuth code)
            (findCode (requestManager this) client clientAuth code)) (\<lambda>found.
     bnd (if truthy (code_challenge (code_parameters found))
          then
            bnd (call (UniqueCodeChallenge (string_of (code_challenge (code_parameters found))))
                   (uniqueCodeChallenge (replayManager this)
                      (string_of (code_challenge (code_parameters found))))) (\<lambda>unique.
              if \<not> unique
              then throw (InvalidGrantError (Some ''code_challenge'')
                            (Some (Error ''Code challenge already used'')))
              else ret ())
          else ret ()) (\<lambda>_.
     bnd (call (AccountGet (code_deviceId found) (code_sub found))
            (account_get (accountManager this) (code_deviceId found) (code_sub found))) (\<lambda>(account, info).
     call (TokenCreate (client_id client) (sub account))
       (token_create (tokenManager this) client clientAuth clientMetadata account
          (code_deviceId found, info) (code_parameters found) input dpopJkt)))))"

text \<open>\<open>codeGrant\<close> (lines 907 to 972).\<close>

definition codeGrant ::
  "('p, 'w) OAuthProvider \<Rightarrow> Client \<Rightarrow> ClientAuth \<Rightarrow> string \<Rightarrow> OAuthTokenRequest \<Rightarrow> string option
     \<Rightarrow> (OAuthTokenResponse, 'w) prog" where
  "codeGrant this client clientAuth clientMetadata input dpopJkt =
     catch (codeGrant_try this client clientAuth clientMetadata input dpopJkt) (\<lambda>err.
       bnd (call (TokenRevoke (input_code input)) (token_revoke (tokenManager this) (input_code input)))
         (\<lambda>_. throw err))"

text \<open>\<open>refreshTokenGrant\<close> (lines 974 to 988).\<close>

definition refreshTokenGrant ::
  "('p, 'w) OAuthProvider \<Rightarrow> Client \<Rightarrow> ClientAuth \<Rightarrow> string \<Rightarrow> OAuthTokenRequest \<Rightarrow> string option
     \<Rightarrow> (OAuthTokenResponse, 'w) prog" where
  "refreshTokenGrant this client clientAuth clientMetadata input dpopJkt =
     call (TokenRefresh (client_id client))
       (token_refresh (tokenManager this) client clientAuth clientMetadata input dpopJkt)"

text \<open>\<open>token\<close> (lines 861 to 905).\<close>

definition token ::
  "('p, 'w) OAuthProvider \<Rightarrow> OAuthClientCredentials \<Rightarrow> string \<Rightarrow> OAuthTokenRequest \<Rightarrow> string option
     \<Rightarrow> (OAuthTokenResponse, 'w) prog" where
  \<open>token this clientCredentials clientMetadata request dpopJkt =
     bnd (authenticateClient this clientCredentials) (\<lambda>(client, clientAuth).
       if \<not> (case grant_types_supported this of
                None \<Rightarrow> False
              | Some supported \<Rightarrow> grant_type request \<in> set supported)
       then throw (InvalidGrantError
                     (Some (''Grant type "'' @ grant_type request @ ''" is not supported by the server''))
                     None)
       else if grant_type request \<notin> set (grant_types (metadata client))
       then throw (InvalidGrantError
                     (Some (''"'' @ grant_type request @ ''" grant type is not allowed for this client''))
                     None)
       else if grant_type request = ''authorization_code''
       then codeGrant this client clientAuth clientMetadata request dpopJkt
       else if grant_type request = ''refresh_token''
       then refreshTokenGrant this client clientAuth clientMetadata request dpopJkt
       else throw (InvalidGrantError
                     (Some (''Grant type "'' @ grant_type request @ ''" not supported'')) None))\<close>

section \<open>Revocation and introspection\<close>

text \<open>\<open>revoke\<close> (lines 993 to 997); \<open>tkn\<close> is the \<open>token\<close> of the identification.\<close>

definition revoke :: "('p, 'w) OAuthProvider \<Rightarrow> string \<Rightarrow> (unit, 'w) prog" where
  "revoke this tkn = call (TokenRevoke tkn) (token_revoke (tokenManager this) tkn)"

record IntrospectionActive =
  ia_scope :: "string option"
  ia_client_id :: string
  ia_username :: "string option"
  ia_token_type :: string
  ia_authorization_details :: "string option"
  ia_aud :: string
  ia_exp :: jsnum
  ia_iat :: jsnum
  ia_iss :: string
  ia_jti :: string
  ia_sub :: string

datatype OAuthIntrospectionResponse = Active IntrospectionActive | Inactive

text \<open>\<open>setTimeout\<close> awaited: the call is recorded and the world moves on.\<close>

definition sleep :: "('p, 'w) OAuthProvider \<Rightarrow> int \<Rightarrow> (unit, 'w) prog" where
  "sleep this ms = call (SetTimeout ms) (\<lambda>w. (Inr (), setTimeout this ms w))"

text \<open>
  \<open>introspect\<close> (lines 1002 to 1052); \<open>tkn\<close> is the \<open>token\<close> of the identification.
  The signer's issuer is the provider's issuer.
\<close>

definition introspect ::
  "('p, 'w) OAuthProvider \<Rightarrow> OAuthClientCredentials \<Rightarrow> string \<Rightarrow> (OAuthIntrospectionResponse, 'w) prog" where
  "introspect this credentials tkn =
     bnd (authenticateClient this credentials) (\<lambda>(client, clientAuth).
       if auth_method clientAuth = ''none''
       then throw (UnauthorizedClientError (Some ''Client authentication required''))
       else
         bnd (gets (Date_now this)) (\<lambda>start.
         catch
           (bnd (call (ClientTokenInfo (client_id client) tkn)
                   (clientTokenInfo (tokenManager this) client clientAuth tkn)) (\<lambda>tokenInfo.
            ret (Active
              \<lparr>ia_scope = scope (td_parameters (ti_data tokenInfo)),
               ia_client_id = td_clientId (ti_data tokenInfo),
               ia_username = preferred_username (ti_account tokenInfo),
               ia_token_type =
                 (if truthy (dpop_jkt (td_parameters (ti_data tokenInfo))) then ''DPoP'' else ''Bearer''),
               ia_authorization_details = td_details (ti_data tokenInfo),
               ia_aud = aud (ti_account tokenInfo),
               ia_exp = dateToEpoch this (td_expiresAt (ti_data tokenInfo)),
               ia_iat = dateToEpoch this (td_updatedAt (ti_data tokenInfo)),
               ia_iss = issuer this,
               ia_jti = ti_id tokenInfo,
               ia_sub = sub (ti_account tokenInfo)\<rparr>)))
           (\<lambda>err.
              bnd (gets (Date_now this)) (\<lambda>now.
              bnd (sleep this (750 - (now - start))) (\<lambda>_.
              ret Inactive)))))"

section \<open>The revocation route\<close>

record IncomingMessage =
  req_method :: string
  req_url :: string
  req_headers :: "(string \<times> string) list"
  req_body :: string

text \<open>
  What the router takes from \<open>lib/http\<close> and \<open>output/build-error-payload\<close>, which are
  not among the sources, and the schema of a token identification; its value here is
  the \<open>token\<close> member.
\<close>

record HttpLib =
  negotiateContent :: "IncomingMessage \<Rightarrow> string list \<Rightarrow> bool"
  parseHttpRequest :: "IncomingMessage \<Rightarrow> string list \<Rightarrow> error + json"
  oauthTokenIdentificationSchema :: "json \<Rightarrow> error + string"
  buildErrorPayload :: "error \<Rightarrow> json"
  buildErrorStatus :: "error \<Rightarrow> nat"

text \<open>
  The resolved error handler of the router (lines 1101 to 1107): \<open>null\<close>, or a function
  of the request, the response, the error and a message. It returns nothing; it may
  throw, change the world and write the response it is given.
\<close>

record 'w RouterOptions =
  onError ::
    "(IncomingMessage \<Rightarrow> ServerResponse \<Rightarrow> error \<Rightarrow> string \<Rightarrow> 'w
        \<Rightarrow> (error + unit) \<times> ServerResponse \<times> 'w) option"

text \<open>\<open>onError?.(req, res, err, msg)\<close>.\<close>

definition onError_call ::
  "'w RouterOptions \<Rightarrow> IncomingMessage \<Rightarrow> error \<Rightarrow> string \<Rightarrow> (unit, 'w) prog" where
  "onError_call options req err msg =
     (case onError options of
        None \<Rightarrow> ret ()
      | Some handler \<Rightarrow>
          (\<lambda>s. case handler req (res s) err msg (world s) of
                 (r, res', w') \<Rightarrow> (r, \<lparr>trace = trace s @ [OnError err msg], res = res', world = w'\<rparr>)))"

definition setHeader :: "string \<Rightarrow> string \<Rightarrow> (unit, 'w) prog" where
  "setHeader name v =
     (\<lambda>s. (Inr (), s\<lparr>res := (res s)\<lparr>headers := (name, v) # filter (\<lambda>h. fst h \<noteq> name) (headers (res s))\<rparr>\<rparr>))"

definition appendHeader :: "string \<Rightarrow> string \<Rightarrow> (unit, 'w) prog" where
  "appendHeader name v = (\<lambda>s. (Inr (), s\<lparr>res := (res s)\<lparr>headers := headers (res s) @ [(name, v)]\<rparr>\<rparr>))"

text \<open>\<open>writeJson\<close>: the status and the JSON body are sent.\<close>

definition writeJson :: "json \<Rightarrow> nat \<Rightarrow> (unit, 'w) prog" where
  "writeJson payload status =
     (\<lambda>s. (Inr (), s\<lparr>res := (res s)\<lparr>headersSent := True, statusCode := Some status, body := Some payload\<rparr>\<rparr>))"

definition res_destroy :: "(unit, 'w) prog" where
  "res_destroy = (\<lambda>s. (Inr (), s\<lparr>res := (res s)\<lparr>destroyed := True\<rparr>\<rparr>))"

definition res_headersSent :: "(bool, 'w) prog" where
  "res_headersSent = (\<lambda>s. (Inr (headersSent (res s)), s))"

text \<open>\<open>corsHeaders\<close> (lines 1110 to 1135), up to its call of \<open>next\<close>.\<close>

definition corsHeaders :: "(unit, 'w) prog" where
  "corsHeaders =
     bnd (setHeader ''Access-Control-Max-Age'' ''86400'') (\<lambda>_.
     bnd (setHeader ''Access-Control-Allow-Origin'' ''*'') (\<lambda>_.
     bnd (setHeader ''Access-Control-Allow-Methods'' ''*'') (\<lambda>_.
     setHeader ''Access-Control-Allow-Headers'' ''Content-Type,DPoP'')))"

text \<open>\<open>jsonHandler\<close> (lines 1148 to 1180).\<close>

definition jsonHandler ::
  "HttpLib \<Rightarrow> 'w RouterOptions \<Rightarrow> (IncomingMessage \<Rightarrow> (json \<times> nat option, 'w) prog)
     \<Rightarrow> IncomingMessage \<Rightarrow> (unit, 'w) prog" where
  "jsonHandler lib options buildJson req =
     bnd (setHeader ''Cache-Control'' ''no-store'') (\<lambda>_.
     bnd (setHeader ''Pragma'' ''no-cache'') (\<lambda>_.
       if \<not> negotiateContent lib req [''application/json'']
       then throw (HttpError 406 ''Unsupported media type'')
       else
         catch
           (bnd (buildJson req) (\<lambda>(payload, status).
            writeJson payload (case status of None \<Rightarrow> 200 | Some c \<Rightarrow> c)))
           (\<lambda>err.
              bnd (onError_call options req err ''OAuth request error'') (\<lambda>_.
              bnd res_headersSent (\<lambda>sent.
                if \<not> sent
                then writeJson (buildErrorPayload lib err) (buildErrorStatus lib err)
                else res_destroy)))))"

text \<open>
  \<open>oauthHandler\<close> (lines 1182 to 1210): \<open>corsHeaders\<close>, then the JSON handler around
  the endpoint.
\<close>

definition oauthHandler ::
  "('p, 'w) OAuthProvider \<Rightarrow> HttpLib \<Rightarrow> 'w RouterOptions \<Rightarrow> (IncomingMessage \<Rightarrow> (json, 'w) prog)
     \<Rightarrow> nat option \<Rightarrow> IncomingMessage \<Rightarrow> (unit, 'w) prog" where
  "oauthHandler server lib options buildOAuthResponse status req =
     bnd corsHeaders (\<lambda>_.
     jsonHandler lib options (\<lambda>req.
       catch
         (bnd (call NextDpopNonce (\<lambda>w. case nextDpopNonce server w of (n, w') \<Rightarrow> (Inr n, w'))) (\<lambda>dpopNonce.
          bnd (if truthy dpopNonce
               then bnd (setHeader ''DPoP-Nonce'' (string_of dpopNonce)) (\<lambda>_.
                    appendHeader ''Access-Control-Expose-Headers'' ''DPoP-Nonce'')
               else ret ()) (\<lambda>_.
          bnd (buildOAuthResponse req) (\<lambda>payload.
          ret (payload, status)))))
         (\<lambda>err.
            bnd res_headersSent (\<lambda>sent.
            bnd (if \<not> sent \<and> instanceof_WWWAuthenticateError err
                 then bnd (setHeader ''WWW-Authenticate'' (wwwAuthenticateHeader err)) (\<lambda>_.
                      appendHeader ''Access-Control-Expose-Headers'' ''WWW-Authenticate'')
                 else ret ()) (\<lambda>_.
            throw err)))) req)"

text \<open>The handler of \<open>POST /oauth/revoke\<close> (lines 1468 to 1485).\<close>

definition oauth_revoke_post ::
  "('p, 'w) OAuthProvider \<Rightarrow> HttpLib \<Rightarrow> 'w RouterOptions \<Rightarrow> IncomingMessage \<Rightarrow> (unit, 'w) prog" where
  "oauth_revoke_post server lib options =
     oauthHandler server lib options (\<lambda>req.
       bnd (lift (parseHttpRequest lib req [''json'', ''urlencoded''])) (\<lambda>payload.
       bnd (catch (lift (oauthTokenIdentificationSchema lib payload)) throwInvalidRequest)
         (\<lambda>tokenIdentification.
       bnd (catch (revoke server tokenIdentification)
              (\<lambda>err. onError_call options req err ''Failed to revoke token'')) (\<lambda>_.
       ret (JObject []))))) None"

section \<open>An in-memory provider\<close>

text \<open>
  A small provider over in-memory stores, on which the theorems below are run: the
  world holds the clock, the replay store, the registered clients, the accounts signed
  in on the device, the issued codes and tokens, and a switch that makes the request
  and token stores fail.
\<close>

record World =
  clock :: int
  replay :: "string list"
  clients :: "Client list"
  device_accounts :: "(Account \<times> DeviceAccountInfo) list"
  codes :: "(string \<times> CodeInfo) list"
  tokens :: "(string \<times> TokenInfo) list"
  revoked :: "string list"
  store_down :: bool

definition jwt_auth :: ClientAuth where
  "jwt_auth = \<lparr>auth_method = CLIENT_ASSERTION_TYPE_JWT_BEARER, kid = Some ''key-1'',
                alg = Some ''ES256'', jkt = Some ''thumbprint-1''\<rparr>"

definition no_parameters :: OAuthAuthorizationRequestParameters where
  "no_parameters = \<lparr>prompt = None, login_hint = None, code_challenge = None, scope = Some ''atproto'',
                     redirect_uri = Some ''https://app.example/cb'', dpop_jkt = None\<rparr>"

text \<open>The client assertion's text stands for its \<open>jti\<close>, the request object's text too.\<close>

definition memory_clientManager :: "(OAuthAuthorizationRequestParameters, World) ClientManager" where
  "memory_clientManager =
     \<lparr>getClient = (\<lambda>cid w.
        case find (\<lambda>c. client_id c = cid) (clients w) of
          None \<Rightarrow> (Inl (InvalidClientError (Some ''Client not found'') None), w)
        | Some c \<Rightarrow> (Inr c, w)),
      verifyCredentials = (\<lambda>client credentials audience w.
        case client_assertion credentials of
          None \<Rightarrow> (Inr (auth_none, None), w)
        | Some assertion \<Rightarrow> (Inr (jwt_auth, Some assertion), w)),
      decodeRequestObject = (\<lambda>client request w.
        (Inr \<lparr>payload_jti = Some request, payload_claims = no_parameters, kind = Unsigned\<rparr>, w)),
      authJwkThumbprint = (\<lambda>key w. (Inr key, w))\<rparr>"

text \<open>The replay store: a conditional insert of the key.\<close>

definition memory_unique :: "string \<Rightarrow> (bool, World) io" where
  "memory_unique key w =
     (if key \<in> set (replay w) then (Inr False, w) else (Inr True, w\<lparr>replay := key # replay w\<rparr>))"

definition memory_replayManager :: "World ReplayManager" where
  "memory_replayManager =
     \<lparr>uniqueAuth = (\<lambda>jti cid. memory_unique (''auth:'' @ jti)),
      uniqueJar = (\<lambda>jti cid. memory_unique (''jar:'' @ jti)),
      uniqueCodeChallenge = (\<lambda>challenge. memory_unique (''pkce:'' @ challenge))\<rparr>"

definition memory_requestManager :: "World RequestManager" where
  "memory_requestManager =
     \<lparr>createAuthorizationRequest = (\<lambda>client clientAuth parameters deviceId dpopJkt w.
        (Inr \<lparr>ri_uri = ''urn:ietf:params:oauth:request_uri:req-1'',
              ri_expiresAt = Date (clock w + 300000),
              ri_clientId = client_id client,
              ri_clientAuth = clientAuth,
              ri_parameters = parameters\<rparr>, w)),
      request_get = (\<lambda>uri deviceId cid w. (Inl (InvalidGrantError (Some ''Unknown request_uri'') None), w)),
      request_delete = (\<lambda>uri w.
        if store_down w then (Inl (Error ''store unavailable''), w) else (Inr (), w)),
      setAuthorized = (\<lambda>uri client account deviceId deviceMetadata w. (Inr (''cod-'' @ sub account), w)),
      findCode = (\<lambda>client clientAuth code w.
        case map_of (codes w) code of
          None \<Rightarrow> (Inl (InvalidGrantError (Some ''Invalid code'') None), w)
        | Some found \<Rightarrow> (Inr found, w\<lparr>codes := filter (\<lambda>c. fst c \<noteq> code) (codes w)\<rparr>))\<rparr>"

definition memory_accountManager :: "World AccountManager" where
  "memory_accountManager =
     \<lparr>account_list = (\<lambda>deviceId w. (Inr (device_accounts w), w)),
      account_get = (\<lambda>deviceId subject w.
        case find (\<lambda>a. sub (fst a) = subject) (device_accounts w) of
          None \<Rightarrow> (Inl (InvalidRequestError (Some ''Account not found'') None), w)
        | Some a \<Rightarrow> (Inr a, w))\<rparr>"

definition memory_tokenManager :: "World TokenManager" where
  "memory_tokenManager =
     \<lparr>token_create = (\<lambda>client clientAuth clientMetadata account device parameters input dpopJkt w.
        (Inr \<lparr>access_token = ''tok-1'', refresh_token = None\<rparr>, w)),
      token_refresh = (\<lambda>client clientAuth clientMetadata input dpopJkt w.
        (Inl (InvalidGrantError (Some ''Invalid refresh token'') None), w)),
      token_revoke = (\<lambda>t w.
        if store_down w then (Inl (Error ''store unavailable''), w)
        else (Inr (), w\<lparr>revoked := t # revoked w\<rparr>)),
      clientTokenInfo = (\<lambda>client clientAuth t w.
        case map_of (tokens w) t of
          None \<Rightarrow> (Inl (InvalidRequestError (Some ''Invalid token'') None), w\<lparr>clock := clock w + 20\<rparr>)
        | Some info \<Rightarrow> (Inr info, w))\<rparr>"

definition memory_provider :: "(OAuthAuthorizationRequestParameters, World) OAuthProvider" where
  "memory_provider =
     \<lparr>issuer = ''https://pds.example'',
      authenticationMaxAge = Number 604800,
      grant_types_supported = Some [''authorization_code'', ''refresh_token''],
      clientManager = memory_clientManager,
      replayManager = memory_replayManager,
      requestManager = memory_requestManager,
      accountManager = memory_accountManager,
      tokenManager = memory_tokenManager,
      Date_now = clock,
      setTimeout = (\<lambda>ms w. w\<lparr>clock := clock w + max 0 ms\<rparr>),
      nextDpopNonce = (\<lambda>w. (Some ''nonce-1'', w)),
      codeSchema = (\<lambda>c. if c = [] then Inl (ZodError [([''body'', ''code''], ''Required'')]) else Inr c),
      requestUriSchema = (\<lambda>u. if u = [] then Inl (ZodError [([''query'', ''request_uri''], ''Required'')])
                               else Inr u),
      oauthAuthorizationRequestParametersSchema = Inr,
      dateToEpoch = (\<lambda>d. case d of Date t \<Rightarrow> Number (of_int (t div 1000)) | InvalidDate \<Rightarrow> NaN),
      dateToRelativeSeconds = (\<lambda>d w. case d of Date t \<Rightarrow> Number (of_int ((t - clock w) div 1000))
                                               | InvalidDate \<Rightarrow> NaN),
      sortedScopes = (\<lambda>sc. [sc])\<rparr>"

text \<open>
  Modelled from the spec: the HTTP helpers of the router (\<open>lib/http\<close> and
  \<open>output/build-error-payload\<close> are not among the sources). Section 6 gives the error
  body \<open>{error, error_description}\<close> and the status of an OAuth error, which is 400 for
  an invalid request and 401 where the client must authenticate. The request's body
  text stands for its \<open>token\<close> parameter; an empty body has none.
\<close>

definition memory_lib :: HttpLib where
  "memory_lib =
     \<lparr>negotiateContent = (\<lambda>req types.
        case map_of (req_headers req) ''accept'' of
          None \<Rightarrow> True
        | Some accepted \<Rightarrow> accepted = ''*/*'' \<or> accepted \<in> set types),
      parseHttpRequest = (\<lambda>req kinds.
        if req_body req = [] then Inr (JObject [])
        else Inr (JObject [(''token'', JString (req_body req))])),
      oauthTokenIdentificationSchema = (\<lambda>payload.
        case payload of
          JObject members \<Rightarrow>
            (case map_of members ''token'' of
               Some (JString t) \<Rightarrow> Inr t
             | _ \<Rightarrow> Inl (ZodError [([''body'', ''token''], ''Invalid input'')]))
        | _ \<Rightarrow> Inl (ZodError [([''body''], ''Expected object'')])),
      buildErrorPayload = (\<lambda>err.
        JObject [(''error'', JString (error_code err)),
                 (''error_description'', JString (string_of (error_description err)))]),
      buildErrorStatus = (\<lambda>err.
        case err of
          HttpError status _ \<Rightarrow> status
        | WWWAuthenticateError _ _ _ \<Rightarrow> 401
        | _ \<Rightarrow> 400)\<rparr>"

definition web_client :: Client where
  "web_client = \<lparr>client_id = ''https://app.example/client-metadata.json'',
                  metadata = \<lparr>application_type = ''web'',
                              grant_types = [''authorization_code'', ''refresh_token'']\<rparr>,
                  client_info = \<lparr>isFirstParty = False\<rparr>\<rparr>"

definition native_client :: Client where
  "native_client = \<lparr>client_id = ''https://native.example/client-metadata.json'',
                     metadata = \<lparr>application_type = ''native'',
                                 grant_types = [''authorization_code'', ''refresh_token'']\<rparr>,
                     client_info = \<lparr>isFirstParty = False\<rparr>\<rparr>"

definition alice :: Account where
  "alice = \<lparr>sub = ''did:plc:alice'', preferred_username = Some ''alice.test'', aud = ''did:web:pds.example''\<rparr>"

definition bob :: Account where
  "bob = \<lparr>sub = ''did:plc:bob'', preferred_username = Some ''bob.test'', aud = ''did:web:pds.example''\<rparr>"

text \<open>The world at 1000000 ms: two registered clients, nobody signed in on the device.\<close>

definition world0 :: World where
  "world0 = \<lparr>clock = 1000000, replay = [], clients = [web_client, native_client],
              device_accounts = [], codes = [], tokens = [], revoked = [], store_down = False\<rparr>"

definition start :: "World \<Rightarrow> World st" where
  "start w = \<lparr>trace = [],
              res = \<lparr>headers = [], headersSent = False, statusCode = None, body = None, destroyed = False\<rparr>,
              world = w\<rparr>"

definition web_credentials :: OAuthClientCredentials where
  "web_credentials = \<lparr>cred_client_id = ''https://app.example/client-metadata.json'', client_assertion = None\<rparr>"

definition web_jwt_credentials :: OAuthClientCredentials where
  "web_jwt_credentials =
     \<lparr>cred_client_id = ''https://app.example/client-metadata.json'', client_assertion = Some ''jti-9''\<rparr>"

definition native_jwt_credentials :: OAuthClientCredentials where
  "native_jwt_credentials =
     \<lparr>cred_client_id = ''https://native.example/client-metadata.json'', client_assertion = Some ''jti-1''\<rparr>"

text \<open>Sessions of the device: signed in 100 s ago or 8 days ago, consent given or not.\<close>

definition session_info :: "Date \<Rightarrow> bool \<Rightarrow> DeviceAccountInfo" where
  "session_info signed_in consented =
     \<lparr>authenticatedAt = signed_in,
      authorizedClients = (if consented then [''https://app.example/client-metadata.json''] else [])\<rparr>"

definition on_device :: "(Account \<times> DeviceAccountInfo) list \<Rightarrow> bool \<Rightarrow> World st" where
  "on_device accounts down = start (world0\<lparr>device_accounts := accounts, store_down := down\<rparr>)"

definition revoke_request :: "string \<Rightarrow> IncomingMessage" where
  "revoke_request text =
     \<lparr>req_method = ''POST'', req_url = ''/oauth/revoke'', req_headers = [], req_body = text\<rparr>"

text \<open>Authorization requests: silent (\<open>prompt=none\<close>), and with a login hint.\<close>

definition silent :: OAuthAuthorizationRequestParameters where
  "silent = no_parameters\<lparr>prompt := Some ''none''\<rparr>"

definition hinted :: OAuthAuthorizationRequestParameters where
  "hinted = no_parameters\<lparr>login_hint := Some ''did:plc:alice''\<rparr>"

text \<open>A state whose replay store already holds a key, an issued code, a logger.\<close>

definition replayed :: "string \<Rightarrow> World st" where
  "replayed key = start (world0\<lparr>replay := [key]\<rparr>)"

definition pkce_code :: CodeInfo where
  "pkce_code = \<lparr>code_sub = ''did:plc:alice'', code_deviceId = ''dev-1'',
                code_parameters = no_parameters\<lparr>code_challenge := Some ''challenge-1''\<rparr>\<rparr>"

definition logger ::
  "IncomingMessage \<Rightarrow> ServerResponse \<Rightarrow> error \<Rightarrow> string \<Rightarrow> World
     \<Rightarrow> (error + unit) \<times> ServerResponse \<times> World" where
  "logger req response err msg w = (Inr (), response, w)"

section \<open>Laws of the effects\<close>

lemma ret_apply: "ret x s = (Inr x, s)"
  by (simp add: ret_def)

lemma throw_apply: "throw e s = (Inl e, s)"
  by (simp add: throw_def)

lemma bnd_Inr: "m s = (Inr x, s') \<Longrightarrow> bnd m f s = f x s'"
  by (simp add: bnd_def)

lemma bnd_Inl: "m s = (Inl e, s') \<Longrightarrow> bnd m f s = (Inl e, s')"
  by (simp add: bnd_def)

lemma catch_Inr: "m s = (Inr x, s') \<Longrightarrow> catch m h s = (Inr x, s')"
  by (simp add: catch_def)

lemma catch_Inl: "m s = (Inl e, s') \<Longrightarrow> catch m h s = h e s'"
  by (simp add: catch_def)

lemma call_apply:
  "f (world s) = (r, w') \<Longrightarrow> call ev f s = (r, s\<lparr>trace := trace s @ [ev], world := w'\<rparr>)"
  by (simp add: call_def)

lemma lift_Inr: "lift (Inr x) s = (Inr x, s)"
  by (simp add: lift_def ret_def)

lemma lift_Inl: "lift (Inl e) s = (Inl e, s)"
  by (simp add: lift_def throw_def)

lemma gets_apply: "gets f s = (Inr (f (world s)), s)"
  by (simp add: gets_def)

lemmas prog_defs = bnd_def catch_def catch_opt_def call_def throw_def ret_def lift_def gets_def

section \<open>Rounding to binary64\<close>

lemma bitlen_powi_bounds:
  assumes "0 < (x::int)"
  shows "2 powi (bitlen x - 1) \<le> (of_int x :: rat)" and "(of_int x :: rat) < 2 powi bitlen x"
proof -
  from assms have b: "1 \<le> bitlen x"
    by (simp add: bitlen_alt_def)
  from bitlen_bounds [OF assms]
  have lo: "2 ^ nat (bitlen x - 1) \<le> x" and hi: "x < 2 ^ nat (bitlen x)"
    by simp_all
  have "(of_int (2 ^ nat (bitlen x - 1)) :: rat) \<le> of_int x"
    using lo by (simp only: of_int_le_iff)
  moreover have "(2::rat) powi (bitlen x - 1) = 2 ^ nat (bitlen x - 1)"
    using b by (simp add: power_int_def)
  ultimately show "2 powi (bitlen x - 1) \<le> (of_int x :: rat)"
    by simp
  have "(of_int x :: rat) < of_int (2 ^ nat (bitlen x))"
    using hi by (simp only: of_int_less_iff)
  moreover have "(2::rat) powi bitlen x = 2 ^ nat (bitlen x)"
    using b by (simp add: power_int_def)
  ultimately show "(of_int x :: rat) < 2 powi bitlen x"
    by simp
qed

lemma ilog2_bounds:
  assumes "0 < a"
  shows "2 powi ilog2 a \<le> a" and "a < 2 powi (ilog2 a + 1)"
proof -
  obtain p q where pq: "quotient_of a = (p, q)"
    by (cases "quotient_of a")
  have q: "0 < q"
    using pq by (rule quotient_of_denom_pos)
  have a: "a = of_int p / of_int q"
    using pq by (rule quotient_of_div)
  have p: "0 < p"
    using assms q a by (simp add: zero_less_divide_iff)
  let ?d = "bitlen p - bitlen q"
  note bp = bitlen_powi_bounds [OF p] and bq = bitlen_powi_bounds [OF q]
  have qr: "0 < (of_int q :: rat)"
    using q by simp
  have lower: "2 powi (?d - 1) \<le> a"
  proof -
    have "(2::rat) powi (?d - 1) = 2 powi (bitlen p - 1) / 2 powi bitlen q"
      by (simp add: power_int_diff)
    also have "\<dots> \<le> of_int p / 2 powi bitlen q"
      using bp(1) by (simp add: divide_right_mono)
    also have "\<dots> \<le> of_int p / of_int q"
      using bq(2) p qr by (simp add: frac_le)
    finally show ?thesis
      by (simp add: a)
  qed
  have upper: "a < 2 powi (?d + 1)"
  proof -
    have "a = of_int p / of_int q"
      by (rule a)
    also have "\<dots> < 2 powi bitlen p / of_int q"
      using bp(2) qr by (simp add: divide_strict_right_mono)
    also have "\<dots> \<le> 2 powi bitlen p / 2 powi (bitlen q - 1)"
      using bq(1) by (simp add: frac_le)
    also have "\<dots> = 2 powi (?d + 1)"
      by (simp add: power_int_diff power_int_add)
    finally show ?thesis .
  qed
  show "2 powi ilog2 a \<le> a"
    using lower by (simp add: ilog2_def pq Let_def)
  show "a < 2 powi (ilog2 a + 1)"
    using upper by (auto simp: ilog2_def pq Let_def not_le)
qed

lemma round_half_even_ge:
  assumes "of_int n \<le> y"
  shows "n \<le> round_half_even y"
proof -
  from assms have "n \<le> \<lfloor>y\<rfloor>"
    by (simp add: le_floor_iff)
  then show ?thesis
    by (simp add: round_half_even_def Let_def)
qed

text \<open>Rounding keeps every power of two in the normal range below a value below its result.\<close>

lemma binary64_ge_power:
  assumes "2 powi k \<le> x" and "- 1022 \<le> k"
  shows "binary64 x = PosInfinity \<or> (\<exists>r. binary64 x = Number r \<and> 2 powi k \<le> r)"
proof -
  have x: "0 < x"
    using assms(1) by (rule less_le_trans [rotated]) simp
  let ?e = "ilog2 x"
  have ax: "\<bar>x\<bar> = x"
    using x by simp
  have "(2::rat) powi k < 2 powi (?e + 1)"
    using assms(1) ilog2_bounds(2) [of x] x by simp
  then have ke: "k \<le> ?e"
    using power_int_increasing [of "?e + 1" k "2::rat"] by (cases "k \<le> ?e") simp_all
  then have m: "max (?e - 52) (- 1074) = ?e - 52"
    using assms(2) by simp
  let ?q = "(2::rat) powi (?e - 52)"
  have q: "0 < ?q"
    by simp
  have "(2::rat) ^ 52 = 2 powi ?e / ?q"
    by (simp add: power_int_diff)
  also have "\<dots> \<le> x / ?q"
    using ilog2_bounds(1) [of x] x q by (simp add: divide_right_mono)
  finally have "of_int (2 ^ 52) \<le> x / ?q"
    by simp
  then have "2 ^ 52 \<le> round_half_even (x / ?q)"
    by (rule round_half_even_ge)
  then have "(of_int (2 ^ 52) :: rat) \<le> of_int (round_half_even (x / ?q))"
    by (simp only: of_int_le_iff)
  then have 3: "of_int (2 ^ 52) * ?q \<le> of_int (round_half_even (x / ?q)) * ?q"
    using q by (intro mult_right_mono) simp_all
  have 2: "(2::rat) powi ?e = of_int (2 ^ 52) * ?q"
    by (simp add: power_int_diff)
  have 1: "(2::rat) powi k \<le> 2 powi ?e"
    using ke by (simp add: power_int_increasing)
  have r: "2 powi k \<le> of_int (round_half_even (x / ?q)) * ?q"
    using 1 3 unfolding 2 by (rule order_trans)
  show ?thesis
    using x r by (simp add: binary64_def Let_def ax m)
qed


lemma binary64_minus:
  "binary64 (- x) = (case binary64 x of Number r \<Rightarrow> Number (- r) | PosInfinity \<Rightarrow> NegInfinity
                      | NegInfinity \<Rightarrow> PosInfinity | NaN \<Rightarrow> NaN)"
  by (cases "x = 0"; cases "0 < x") (auto simp: binary64_def Let_def)


lemma age_of_future:
  assumes "now < t"
  shows "js_div_pos (js_sub (Number (of_int now)) (Number (of_int t))) 1000 = NegInfinity
       \<or> (\<exists>r. js_div_pos (js_sub (Number (of_int now)) (Number (of_int t))) 1000 = Number r \<and> r < 0)"
proof -
  have d: "2 powi 0 \<le> (of_int (t - now) :: rat)"
    using assms by (simp add: of_int_1_le_iff [symmetric] del: of_int_1_le_iff) 
  have neg: "(of_int now - of_int t :: rat) = - of_int (t - now)"
    by simp
  have "- 1022 \<le> (0::int)"
    by simp
  from binary64_ge_power [OF d this] show ?thesis
  proof
    assume "binary64 (of_int (t - now)) = PosInfinity"
    then show ?thesis by (simp add: neg binary64_minus del: of_int_diff)
  next
    assume "\<exists>r. binary64 (of_int (t - now)) = Number r \<and> 2 powi 0 \<le> r"
    then obtain r where r: "binary64 (of_int (t - now)) = Number r" "1 \<le> r"
      by auto
    have "2 powi (- 10) \<le> r / 1000"
      using r(2) by (simp add: power_int_minus field_simps)
    moreover have "- 1022 \<le> (- 10 :: int)"
      by simp
    ultimately
    have "binary64 (r / 1000) = PosInfinity \<or> (\<exists>r'. binary64 (r / 1000) = Number r' \<and> 0 < r')"
      using binary64_ge_power [of "- 10" "r / 1000"]
      by (auto intro: less_le_trans [rotated])
    then show ?thesis
      using r(1) binary64_minus [of "r / 1000"]
      by (auto simp: neg binary64_minus simp del: of_int_diff)
  qed
qed

section \<open>Facts about the in-memory provider\<close>

lemmas memory_defs =
  memory_provider_def memory_clientManager_def memory_replayManager_def memory_requestManager_def
  memory_accountManager_def memory_tokenManager_def memory_unique_def memory_lib_def
  web_client_def native_client_def alice_def bob_def world0_def start_def
  web_credentials_def web_jwt_credentials_def native_jwt_credentials_def session_info_def
  on_device_def revoke_request_def jwt_auth_def auth_none_def no_parameters_def
  CLIENT_ASSERTION_TYPE_JWT_BEARER_def

lemma memory_getClient_web:
  "clients w = [web_client, native_client] \<Longrightarrow>
   getClient (clientManager memory_provider) (cred_client_id web_credentials) w = (Inr web_client, w)"
  by (simp add: memory_provider_def memory_clientManager_def web_credentials_def web_client_def)

lemma memory_processAuthorizationRequest:
  "processAuthorizationRequest memory_provider web_client ''dev-1'' (QueryParameters p) s =
     (Inr \<lparr>ri_uri = ''urn:ietf:params:oauth:request_uri:req-1'',
           ri_expiresAt = Date (clock (world s) + 300000),
           ri_clientId = client_id web_client,
           ri_clientAuth = auth_none,
           ri_parameters = p\<rparr>,
      s\<lparr>trace := trace s @ [CreateAuthorizationRequest (client_id web_client) auth_none p (Some ''dev-1'') None]\<rparr>)"
  by (simp add: processAuthorizationRequest_def call_def memory_provider_def memory_requestManager_def)

lemma memory_account_list:
  "account_list (accountManager memory_provider) d w = (Inr (device_accounts w), w)"
  by (simp add: memory_provider_def memory_accountManager_def)

lemma memory_authenticate_jwt:
  "authenticateClient memory_provider web_jwt_credentials (start world0) =
     (Inr (web_client, jwt_auth),
      (start (world0\<lparr>replay := [''auth:jti-9'']\<rparr>))
        \<lparr>trace := [GetClient (client_id web_client), VerifyCredentials (client_id web_client),
                   UniqueAuth ''jti-9'' (client_id web_client)]\<rparr>)"
  by (simp add: authenticateClient_def prog_defs memory_defs)

text \<open>The ages of the sessions of the in-memory provider, computed in binary64.\<close>

lemma ilog2_values:
  "ilog2 100000 = 16"
  "ilog2 100 = 6"
  "ilog2 701000000 = 29"
  "ilog2 701000 = 19"
  "ilog2 1000000 = 19"
  "ilog2 1000 = 9"
  "ilog2 1100 = 10"
  "ilog2 (11 / 10) = 0"
  by code_simp+

lemma round_half_even_value:
  "round_half_even (24769797950537728 / 5) = 4953959590107546"
  by code_simp

lemma binary64_values:
  "binary64 100000 = Number 100000"
  "binary64 100 = Number 100"
  "binary64 701000000 = Number 701000000"
  "binary64 701000 = Number 701000"
  "binary64 (- 1000000) = Number (- 1000000)"
  "binary64 (- 1000) = Number (- 1000)"
  "binary64 1100 = Number 1100"
  by (simp_all add: binary64_def Let_def ilog2_values round_half_even_def)

lemma binary64_tenth:
  "binary64 (11 / 10) = Number (2476979795053773 / 2251799813685248)"
  by (simp add: binary64_def Let_def ilog2_values round_half_even_value)

lemmas scenario_defs =
  sessionsOf_def loginRequired_def matchesHint_def Let_def silent_def hinted_def
  memory_defs AccessDeniedError_from_def binary64_values binary64_tenth

section \<open>Properties of session freshness\<close>




text \<open>
  C9. \<open>loginRequired\<close> is true, whatever \<open>authenticationMaxAge\<close> is, for every session
  whose \<open>authenticatedAt\<close> is an invalid date or is later than now.
\<close>

theorem loginRequired_foolproof:
  "authenticatedAt info = InvalidDate \<or> (\<exists>t. authenticatedAt info = Date t \<and> now < t) \<Longrightarrow>
   loginRequired maxAge now client parameters info = True"
proof (erule disjE)
  assume "authenticatedAt info = InvalidDate"
  then show ?thesis
    by (simp add: loginRequired_def)
next
  assume "\<exists>t. authenticatedAt info = Date t \<and> now < t"
  then obtain t where t: "authenticatedAt info = Date t" "now < t"
    by blast
  from age_of_future [OF t(2)] show ?thesis
    using t(1) by (auto simp: loginRequired_def Let_def)
qed

text \<open>An invalid date and a date in the future, with an unbounded maximum age.\<close>

theorem loginRequired_foolproof_witness:
  "loginRequired PosInfinity 1000000 web_client no_parameters (session_info InvalidDate True) = True
   \<and> loginRequired PosInfinity 1000000 web_client no_parameters (session_info (Date 2000000) True) = True"
  using loginRequired_foolproof [of "session_info InvalidDate True" 1000000 PosInfinity web_client no_parameters]
    loginRequired_foolproof [of "session_info (Date 2000000) True" 1000000 PosInfinity web_client no_parameters]
  by (simp add: session_info_def)

section \<open>Properties of client authentication and replay detection\<close>

lemma authenticateClient_native:
  assumes "getClient (clientManager this) (cred_client_id credentials) (world s) = (Inr client, w1)"
    and "verifyCredentials (clientManager this) client credentials (issuer this) w1
           = (Inr (clientAuth, nonce), w2)"
    and "application_type (metadata client) = ''native''"
    and "auth_method clientAuth \<noteq> ''none''"
  shows \<open>authenticateClient this credentials s =
           (Inl (InvalidGrantError (Some ''Native clients must authenticate using "none" method'') None),
            s\<lparr>trace := trace s @ [GetClient (cred_client_id credentials), VerifyCredentials (client_id client)],
              world := w2\<rparr>)\<close>
  using assms
  by (simp add: authenticateClient_def bnd_def call_def throw_def)

text \<open>
  C3. When the client's metadata has \<open>application_type\<close> equal to \<open>native\<close> and the
  verified credentials use a method other than \<open>none\<close>, \<open>authenticateClient\<close> throws an
  \<open>InvalidGrantError\<close> (\<open>invalid_grant\<close>), and so does the token endpoint, whatever the
  grant requested.
\<close>

theorem native_client_must_use_none:
  assumes "getClient (clientManager this) (cred_client_id credentials) (world s) = (Inr client, w1)"
    and "verifyCredentials (clientManager this) client credentials (issuer this) w1
           = (Inr (clientAuth, nonce), w2)"
    and "application_type (metadata client) = ''native''"
    and "auth_method clientAuth \<noteq> ''none''"
  shows \<open>fst (authenticateClient this credentials s) =
           Inl (InvalidGrantError (Some ''Native clients must authenticate using "none" method'') None)
         \<and> fst (token this credentials clientMetadata request dpopJkt s) =
           Inl (InvalidGrantError (Some ''Native clients must authenticate using "none" method'') None)
         \<and> error_code (InvalidGrantError (Some ''Native clients must authenticate using "none" method'') None)
             = ''invalid_grant''\<close>
  using authenticateClient_native [OF assms]
  by (simp add: token_def bnd_Inl)

text \<open>A native client presenting a client assertion, on the in-memory provider.\<close>

theorem native_client_must_use_none_witness:
  \<open>fst (authenticateClient memory_provider native_jwt_credentials (start world0)) =
     Inl (InvalidGrantError (Some ''Native clients must authenticate using "none" method'') None)
   \<and> fst (token memory_provider native_jwt_credentials ''ua'' (AuthorizationCodeGrant ''code-1'' None)
            None (start world0)) =
     Inl (InvalidGrantError (Some ''Native clients must authenticate using "none" method'') None)\<close>
proof -
  have 1: "getClient (clientManager memory_provider) (cred_client_id native_jwt_credentials)
             (world (start world0)) = (Inr native_client, world0)"
    by (simp add: memory_defs)
  have 2: "verifyCredentials (clientManager memory_provider) native_client native_jwt_credentials
             (issuer memory_provider) world0 = (Inr (jwt_auth, Some ''jti-1''), world0)"
    by (simp add: memory_defs)
  have 3: "application_type (metadata native_client) = ''native''"
    by (simp add: memory_defs)
  have 4: "auth_method jwt_auth \<noteq> ''none''"
    by (simp add: memory_defs)
  show ?thesis
    using native_client_must_use_none [OF 1 2 3 4] by simp
qed

text \<open>
  C1, as amended. A replay found by the replay manager fails the enclosing operation, with
  an error that depends on the flow. A client assertion whose \<open>jti\<close> was already seen
  (\<open>uniqueAuth\<close> returns false) makes \<open>authenticateClient\<close> throw an \<open>InvalidGrantError\<close>
  (\<open>invalid_grant\<close>). A request object whose \<open>jti\<close> was already seen (\<open>uniqueJar\<close> returns
  false) makes \<open>decodeJAR\<close> throw an \<open>InvalidParametersError\<close>, whose code is
  \<open>invalid_request\<close>, not \<open>invalid_grant\<close>. A PKCE challenge that was already used
  (\<open>uniqueCodeChallenge\<close> returns false) makes \<open>codeGrant\<close> throw an \<open>InvalidGrantError\<close>
  after it has attempted to revoke the code; should that revocation fail, its error is
  the one thrown.
\<close>

theorem replay_detected_error:
  \<open>(getClient (clientManager this) (cred_client_id credentials) (world s) = (Inr client, w1)
     \<and> verifyCredentials (clientManager this) client credentials (issuer this) w1
          = (Inr (clientAuth, Some nonce), w2)
     \<and> \<not> (application_type (metadata client) = ''native'' \<and> auth_method clientAuth \<noteq> ''none'')
     \<and> uniqueAuth (replayManager this) nonce (client_id client) w2 = (Inr False, w3)
    \<longrightarrow> fst (authenticateClient this credentials s)
          = Inl (InvalidGrantError (Some (auth_method clientAuth @ '' jti reused'')) None)
        \<and> error_code (InvalidGrantError (Some (auth_method clientAuth @ '' jti reused'')) None) = ''invalid_grant'')
   \<and> (decodeRequestObject (clientManager this) client request (world s) = (Inr result, w1)
     \<and> oauthAuthorizationRequestParametersSchema this (payload_claims result) = Inr payload
     \<and> payload_jti result = Some jti \<and> jti \<noteq> []
     \<and> uniqueJar (replayManager this) jti (client_id client) w1 = (Inr False, w2)
    \<longrightarrow> fst (decodeJAR this client request s)
          = Inl (InvalidParametersError payload (Some ''Request object jti is not unique''))
        \<and> error_code (InvalidParametersError payload (Some ''Request object jti is not unique''))
            = ''invalid_request'')
   \<and> (codeSchema this (input_code input) = Inr code
     \<and> findCode (requestManager this) client clientAuth code (world s) = (Inr found, w1)
     \<and> code_challenge (code_parameters found) = Some challenge \<and> challenge \<noteq> []
     \<and> uniqueCodeChallenge (replayManager this) challenge w1 = (Inr False, w2)
    \<longrightarrow> fst (codeGrant this client clientAuth clientMetadata input dpopJkt s)
          = Inl (case fst (token_revoke (tokenManager this) (input_code input) w2) of
                   Inl e \<Rightarrow> e
                 | Inr _ \<Rightarrow> InvalidGrantError (Some ''code_challenge'')
                             (Some (Error ''Code challenge already used'')))
        \<and> error_code (InvalidGrantError (Some ''code_challenge'')
             (Some (Error ''Code challenge already used''))) = ''invalid_grant'')\<close>
proof (intro conjI impI)
  assume "getClient (clientManager this) (cred_client_id credentials) (world s) = (Inr client, w1)
     \<and> verifyCredentials (clientManager this) client credentials (issuer this) w1
          = (Inr (clientAuth, Some nonce), w2)
     \<and> \<not> (application_type (metadata client) = ''native'' \<and> auth_method clientAuth \<noteq> ''none'')
     \<and> uniqueAuth (replayManager this) nonce (client_id client) w2 = (Inr False, w3)"
  then show "fst (authenticateClient this credentials s)
          = Inl (InvalidGrantError (Some (auth_method clientAuth @ '' jti reused'')) None)"
    by (auto simp: authenticateClient_def bnd_def call_def throw_def)
next
  assume "decodeRequestObject (clientManager this) client request (world s) = (Inr result, w1)
     \<and> oauthAuthorizationRequestParametersSchema this (payload_claims result) = Inr payload
     \<and> payload_jti result = Some jti \<and> jti \<noteq> []
     \<and> uniqueJar (replayManager this) jti (client_id client) w1 = (Inr False, w2)"
  then show "fst (decodeJAR this client request s)
          = Inl (InvalidParametersError payload (Some ''Request object jti is not unique''))"
    by (simp add: decodeJAR_def bnd_def call_def throw_def lift_def ret_def)
next
  assume "codeSchema this (input_code input) = Inr code
     \<and> findCode (requestManager this) client clientAuth code (world s) = (Inr found, w1)
     \<and> code_challenge (code_parameters found) = Some challenge \<and> challenge \<noteq> []
     \<and> uniqueCodeChallenge (replayManager this) challenge w1 = (Inr False, w2)"
  then show "fst (codeGrant this client clientAuth clientMetadata input dpopJkt s)
          = Inl (case fst (token_revoke (tokenManager this) (input_code input) w2) of
                   Inl e \<Rightarrow> e
                 | Inr _ \<Rightarrow> InvalidGrantError (Some ''code_challenge'')
                             (Some (Error ''Code challenge already used'')))"
    by (cases "token_revoke (tokenManager this) (input_code input) w2";
        cases "fst (token_revoke (tokenManager this) (input_code input) w2)")
       (simp_all add: codeGrant_def codeGrant_try_def catch_def bnd_def call_def throw_def lift_def ret_def)
qed simp_all

text \<open>
  The three flows on the in-memory provider, each started with the key already in the
  replay store.
\<close>

theorem replay_detected_error_witness:
  "fst (authenticateClient memory_provider web_jwt_credentials (replayed ''auth:jti-9''))
     = Inl (InvalidGrantError
         (Some ''urn:ietf:params:oauth:client-assertion-type:jwt-bearer jti reused'') None)
   \<and> fst (decodeJAR memory_provider web_client ''jar-1'' (replayed ''jar:jar-1''))
     = Inl (InvalidParametersError no_parameters (Some ''Request object jti is not unique''))
   \<and> fst (codeGrant memory_provider web_client auth_none ''ua'' (AuthorizationCodeGrant ''code-1'' None) None
            (start (world0\<lparr>replay := [''pkce:challenge-1''], codes := [(''code-1'', pkce_code)]\<rparr>)))
     = Inl (InvalidGrantError (Some ''code_challenge'') (Some (Error ''Code challenge already used'')))"
proof -
  have a: "fst (authenticateClient memory_provider web_jwt_credentials (replayed ''auth:jti-9''))
     = Inl (InvalidGrantError
         (Some ''urn:ietf:params:oauth:client-assertion-type:jwt-bearer jti reused'') None)"
    using replay_detected_error [THEN conjunct1, of memory_provider web_jwt_credentials "replayed ''auth:jti-9''"
        web_client "world0\<lparr>replay := [''auth:jti-9'']\<rparr>" jwt_auth "''jti-9''"
        "world0\<lparr>replay := [''auth:jti-9'']\<rparr>" "world0\<lparr>replay := [''auth:jti-9'']\<rparr>"]
    by (simp add: memory_defs replayed_def)
  have b: "fst (decodeJAR memory_provider web_client ''jar-1'' (replayed ''jar:jar-1''))
     = Inl (InvalidParametersError no_parameters (Some ''Request object jti is not unique''))"
    using replay_detected_error [THEN conjunct2, THEN conjunct1, of memory_provider web_client "''jar-1''"
        "replayed ''jar:jar-1''"
        "\<lparr>payload_jti = Some ''jar-1'', payload_claims = no_parameters, kind = Unsigned\<rparr>"
        "world0\<lparr>replay := [''jar:jar-1'']\<rparr>" no_parameters "''jar-1''"
        "world0\<lparr>replay := [''jar:jar-1'']\<rparr>"]
    by (simp add: memory_provider_def memory_clientManager_def memory_replayManager_def
        memory_unique_def replayed_def start_def)
  have c: "fst (codeGrant memory_provider web_client auth_none ''ua'' (AuthorizationCodeGrant ''code-1'' None) None
            (start (world0\<lparr>replay := [''pkce:challenge-1''], codes := [(''code-1'', pkce_code)]\<rparr>)))
     = Inl (InvalidGrantError (Some ''code_challenge'') (Some (Error ''Code challenge already used'')))"
    using replay_detected_error [THEN conjunct2, THEN conjunct2, of memory_provider "AuthorizationCodeGrant ''code-1'' None"
        "''code-1''" web_client auth_none
        "start (world0\<lparr>replay := [''pkce:challenge-1''], codes := [(''code-1'', pkce_code)]\<rparr>)"
        pkce_code "world0\<lparr>replay := [''pkce:challenge-1''], codes := []\<rparr>" "''challenge-1''"
        "world0\<lparr>replay := [''pkce:challenge-1''], codes := []\<rparr>" "''ua''" None]
    by (simp add: memory_defs pkce_code_def)
  show ?thesis
    using a b c by simp
qed

text \<open>
  C1 as stated fails for request objects: with the \<open>jti\<close> of the request object already
  in the replay store, \<open>uniqueJar\<close> returns false, \<open>decodeJAR\<close> fails with an
  \<open>InvalidParametersError\<close> and the pushed authorization request that encloses it fails
  with \<open>invalid_request\<close>; neither is \<open>invalid_grant\<close>.
\<close>

theorem jar_replay_is_invalid_request:
  "fst (uniqueJar (replayManager memory_provider) ''jar-1'' (client_id web_client)
          (world (replayed ''jar:jar-1''))) = Inr False
   \<and> fst (decodeJAR memory_provider web_client ''jar-1'' (replayed ''jar:jar-1''))
       = Inl (InvalidParametersError no_parameters (Some ''Request object jti is not unique''))
   \<and> error_code (InvalidParametersError no_parameters (Some ''Request object jti is not unique''))
       \<noteq> ''invalid_grant''
   \<and> fst (pushedAuthorizationRequest memory_provider web_credentials (ParJar ''jar-1'') None
            (replayed ''jar:jar-1''))
       = Inl (InvalidRequestError (Some ''Request object jti is not unique'')
                (Some (InvalidParametersError no_parameters (Some ''Request object jti is not unique''))))
   \<and> error_code (InvalidRequestError (Some ''Request object jti is not unique'')
                (Some (InvalidParametersError no_parameters (Some ''Request object jti is not unique''))))
       \<noteq> ''invalid_grant''"
  by (simp add: pushedAuthorizationRequest_def pushedAuthorizationRequest_try_def authenticateClient_def
      decodeJAR_def prog_defs memory_defs replayed_def)

section \<open>Properties of pushed authorization requests\<close>

text \<open>
  C6. When the processing of a pushed authorization request throws an
  \<open>AccessDeniedError\<close> or an error of one of its subclasses, \<open>pushedAuthorizationRequest\<close>
  throws an \<open>InvalidRequestError\<close> (\<open>invalid_request\<close>) with the same description and the
  original error as its cause; no failure of \<open>pushedAuthorizationRequest\<close> is an
  \<open>AccessDeniedError\<close>.
\<close>

theorem par_never_access_denied:
  "(pushedAuthorizationRequest_try this credentials authorizationRequest dpopJkt s = (Inl err, s')
      \<and> instanceof_AccessDeniedError err
    \<longrightarrow> pushedAuthorizationRequest this credentials authorizationRequest dpopJkt s
          = (Inl (InvalidRequestError (error_description err) (Some err)), s')
        \<and> error_code (InvalidRequestError (error_description err) (Some err)) = ''invalid_request'')
   \<and> (\<forall>e. fst (pushedAuthorizationRequest this credentials authorizationRequest dpopJkt s) = Inl e
          \<longrightarrow> \<not> instanceof_AccessDeniedError e)"
  by (auto simp: pushedAuthorizationRequest_def catch_def throw_def split: prod.splits sum.splits if_splits)

text \<open>A pushed request object that replays a \<open>jti\<close>, on the in-memory provider.\<close>

theorem par_never_access_denied_witness:
  "fst (pushedAuthorizationRequest memory_provider web_credentials (ParJar ''jar-1'') None
            (replayed ''jar:jar-1''))
       = Inl (InvalidRequestError (Some ''Request object jti is not unique'')
                (Some (InvalidParametersError no_parameters (Some ''Request object jti is not unique''))))
   \<and> \<not> instanceof_AccessDeniedError (InvalidRequestError (Some ''Request object jti is not unique'')
                (Some (InvalidParametersError no_parameters (Some ''Request object jti is not unique''))))"
proof -
  have t: "pushedAuthorizationRequest_try memory_provider web_credentials (ParJar ''jar-1'') None
            (replayed ''jar:jar-1'')
        = (Inl (InvalidParametersError no_parameters (Some ''Request object jti is not unique'')),
           (replayed ''jar:jar-1'')\<lparr>trace := [GetClient (client_id web_client),
              VerifyCredentials (client_id web_client),
              DecodeRequestObject (client_id web_client) ''jar-1'',
              UniqueJar ''jar-1'' (client_id web_client)]\<rparr>)"
    by (simp add: pushedAuthorizationRequest_try_def authenticateClient_def
      decodeJAR_def prog_defs memory_defs replayed_def)
  have i: "instanceof_AccessDeniedError
             (InvalidParametersError no_parameters (Some ''Request object jti is not unique''))"
    by simp
  show ?thesis
    using par_never_access_denied [of memory_provider web_credentials "ParJar ''jar-1''" None "replayed ''jar:jar-1''"
        "InvalidParametersError no_parameters (Some ''Request object jti is not unique'')"
        "(replayed ''jar:jar-1'')\<lparr>trace := [GetClient (client_id web_client),
              VerifyCredentials (client_id web_client),
              DecodeRequestObject (client_id web_client) ''jar-1'',
              UniqueJar ''jar-1'' (client_id web_client)]\<rparr>"] t i
    by simp
qed

section \<open>Properties of the authorization endpoint\<close>

lemma getSessions_apply:
  "account_list (accountManager this) deviceId (world s) = (Inr accounts, w) \<Longrightarrow>
   getSessions this client clientAuth deviceId parameters s =
     (Inr (sessionsOf this (Date_now this w) client parameters accounts),
      s\<lparr>trace := trace s @ [AccountList deviceId], world := w\<rparr>)"
  by (simp add: getSessions_def bnd_def call_def gets_def ret_def)

lemma authorize_after_request:
  assumes "getClient (clientManager this) (cred_client_id clientCredentials) (world s) = (Inr client, w1)"
    and "processAuthorizationRequest this client deviceId query
           (s\<lparr>trace := trace s @ [GetClient (cred_client_id clientCredentials)], world := w1\<rparr>) = (Inr r, s2)"
  shows "authorize this clientCredentials query deviceId deviceMetadata s =
           catch (authorize_try this client (ri_clientAuth r) (ri_parameters r) (ri_uri r)
                    deviceId deviceMetadata)
             (\<lambda>err. bnd (deleteRequest this (ri_uri r) (ri_parameters r)) (\<lambda>_.
                     throw (AccessDeniedError_from (ri_parameters r) err None))) s2"
proof -
  have a: "catch_opt (call (GetClient (cred_client_id clientCredentials))
                        (getClient (clientManager this) (cred_client_id clientCredentials)))
             (accessDeniedCatcher query) s
           = (Inr client, s\<lparr>trace := trace s @ [GetClient (cred_client_id clientCredentials)], world := w1\<rparr>)"
    using assms(1) by (simp add: catch_opt_def catch_def call_def split: option.splits)
  have b: "catch_opt (processAuthorizationRequest this client deviceId query) (accessDeniedCatcher query)
             (s\<lparr>trace := trace s @ [GetClient (cred_client_id clientCredentials)], world := w1\<rparr>) = (Inr r, s2)"
    using assms(2) by (simp add: catch_opt_def catch_def split: option.splits)
  show ?thesis
    by (simp add: authorize_def bnd_def a b)
qed

text \<open>What the \<open>catch\<close> block of \<open>authorize\<close> throws for a user-interaction error.\<close>

lemma authorize_catch_access_denied:
  assumes "instanceof_AccessDeniedError err"
  shows "fst (bnd (deleteRequest this uri parameters)
                (\<lambda>_. throw (AccessDeniedError_from parameters err None)) s2)
         = Inl (case fst (request_delete (requestManager this) uri (world s2)) of
                  Inl e \<Rightarrow> AccessDeniedError_from parameters e None
                | Inr _ \<Rightarrow> err)"
  using assms
  by (auto simp: deleteRequest_def bnd_def catch_def call_def throw_def AccessDeniedError_from_def
      split: prod.splits sum.splits)

text \<open>
  C2, as amended. In \<open>authorize\<close>, once the client and the authorization request are resolved and
  the request has \<open>prompt=none\<close>, let \<open>ssoSessions\<close> be the sessions of the device that
  match the hint. The cases are read in the order the claim lists them.
  If there is exactly one, which needs neither login nor consent, and \<open>setAuthorized\<close>
  returns a code, the result is a redirect with that code. If there are several, the
  request fails with \<open>AccountSelectionRequiredError\<close>; if there is none, or the only one
  needs login, with \<open>LoginRequiredError\<close>; if the only one needs consent (and no login),
  with \<open>ConsentRequiredError\<close>. The error is thrown after the request has been deleted:
  it is the error named here when \<open>requestManager.delete\<close> succeeds, and the failure of
  the deletion, wrapped by \<open>AccessDeniedError.from\<close>, when it does not.
\<close>

theorem authorize_prompt_none:
  assumes client: "getClient (clientManager this) (cred_client_id clientCredentials) (world s) = (Inr client, w1)"
    and request: "processAuthorizationRequest this client deviceId query
           (s\<lparr>trace := trace s @ [GetClient (cred_client_id clientCredentials)], world := w1\<rparr>) = (Inr r, s2)"
    and none: "prompt (ri_parameters r) = Some ''none''"
    and accounts: "account_list (accountManager this) deviceId (world s2) = (Inr accounts, w3)"
    and sso: "ssoSessions =
           filter s_matchesHint (sessionsOf this (Date_now this w3) client (ri_parameters r) accounts)"
  shows "(\<forall>ssoSession code w4.
            ssoSessions = [ssoSession] \<and> \<not> s_loginRequired ssoSession \<and> \<not> s_consentRequired ssoSession
            \<and> setAuthorized (requestManager this) (ri_uri r) client (s_account ssoSession)
                 deviceId deviceMetadata w3 = (Inr code, w4)
          \<longrightarrow> fst (authorize this clientCredentials query deviceId deviceMetadata s)
                = Inr (AuthorizationResultRedirect (issuer this) client (ri_parameters r) code))
       \<and> (length ssoSessions > 1
          \<longrightarrow> fst (authorize this clientCredentials query deviceId deviceMetadata s)
                = Inl (case fst (request_delete (requestManager this) (ri_uri r) w3) of
                         Inl e \<Rightarrow> AccessDeniedError_from (ri_parameters r) e None
                       | Inr _ \<Rightarrow> AccountSelectionRequiredError (ri_parameters r) None))
       \<and> (ssoSessions = [] \<or> (\<exists>ssoSession. ssoSessions = [ssoSession] \<and> s_loginRequired ssoSession)
          \<longrightarrow> fst (authorize this clientCredentials query deviceId deviceMetadata s)
                = Inl (case fst (request_delete (requestManager this) (ri_uri r) w3) of
                         Inl e \<Rightarrow> AccessDeniedError_from (ri_parameters r) e None
                       | Inr _ \<Rightarrow> LoginRequiredError (ri_parameters r) None))
       \<and> (\<forall>ssoSession.
            ssoSessions = [ssoSession] \<and> \<not> s_loginRequired ssoSession \<and> s_consentRequired ssoSession
          \<longrightarrow> fst (authorize this clientCredentials query deviceId deviceMetadata s)
                = Inl (case fst (request_delete (requestManager this) (ri_uri r) w3) of
                         Inl e \<Rightarrow> AccessDeniedError_from (ri_parameters r) e None
                       | Inr _ \<Rightarrow> ConsentRequiredError (ri_parameters r) None))"
proof -
  let ?s3 = "s2\<lparr>trace := trace s2 @ [AccountList deviceId], world := w3\<rparr>"
  let ?attempt = "authorize_try this client (ri_clientAuth r) (ri_parameters r) (ri_uri r) deviceId deviceMetadata"
  note auth = authorize_after_request [OF client request]
  note sess = getSessions_apply [OF accounts, of client "ri_clientAuth r" "ri_parameters r"]
  have w: "world ?s3 = w3" by simp
  have redirect: "fst (authorize this clientCredentials query deviceId deviceMetadata s)
                = Inr (AuthorizationResultRedirect (issuer this) client (ri_parameters r) code)"
    if "ssoSessions = [ssoSession]" "\<not> s_loginRequired ssoSession" "\<not> s_consentRequired ssoSession"
       "setAuthorized (requestManager this) (ri_uri r) client (s_account ssoSession)
                 deviceId deviceMetadata w3 = (Inr code, w4)"
    for ssoSession code w4
    using that sso [symmetric] none
    by (simp add: auth catch_def authorize_try_def sess Let_def bnd_def call_def ret_def)
  have fails: "fst (authorize this clientCredentials query deviceId deviceMetadata s)
                = Inl (case fst (request_delete (requestManager this) (ri_uri r) w3) of
                         Inl e \<Rightarrow> AccessDeniedError_from (ri_parameters r) e None
                       | Inr _ \<Rightarrow> err)"
    if "?attempt s2 = (Inl err, ?s3)" "instanceof_AccessDeniedError err" for err
    using authorize_catch_access_denied [OF that(2), of this "ri_uri r" "ri_parameters r" ?s3]
    by (simp add: auth catch_def that(1))
  have many: "?attempt s2 = (Inl (AccountSelectionRequiredError (ri_parameters r) None), ?s3)"
    if "length ssoSessions > 1"
    using that sso [symmetric] none
    by (simp add: authorize_try_def sess bnd_def Let_def throw_def)
  have login: "?attempt s2 = (Inl (LoginRequiredError (ri_parameters r) None), ?s3)"
    if "ssoSessions = [] \<or> (\<exists>ssoSession. ssoSessions = [ssoSession] \<and> s_loginRequired ssoSession)"
    using that sso [symmetric] none
    by (auto simp: authorize_try_def sess bnd_def Let_def throw_def)
  have consent: "?attempt s2 = (Inl (ConsentRequiredError (ri_parameters r) None), ?s3)"
    if "ssoSessions = [ssoSession]" "\<not> s_loginRequired ssoSession" "s_consentRequired ssoSession"
    for ssoSession
    using that sso [symmetric] none
    by (simp add: authorize_try_def sess bnd_def Let_def throw_def)
  show ?thesis
    using redirect fails [OF many] fails [OF login] fails [OF consent] by simp
qed

text \<open>
  Five silent authorizations on the in-memory provider: one fresh session with consent,
  two sessions, no session, one session signed in more than seven days ago, one fresh
  session without consent.
\<close>

theorem authorize_prompt_none_witness:
  "fst (authorize memory_provider web_credentials (QueryParameters silent) ''dev-1'' ''ua''
          (on_device [(alice, session_info (Date 900000) True)] False))
     = Inr (AuthorizationResultRedirect ''https://pds.example'' web_client silent ''cod-did:plc:alice'')
   \<and> fst (authorize memory_provider web_credentials (QueryParameters silent) ''dev-1'' ''ua''
          (on_device [(alice, session_info (Date 900000) True), (bob, session_info (Date 900000) True)] False))
     = Inl (AccountSelectionRequiredError silent None)
   \<and> fst (authorize memory_provider web_credentials (QueryParameters silent) ''dev-1'' ''ua''
          (on_device [] False))
     = Inl (LoginRequiredError silent None)
   \<and> fst (authorize memory_provider web_credentials (QueryParameters silent) ''dev-1'' ''ua''
          (on_device [(alice, session_info (Date (- 700000000)) True)] False))
     = Inl (LoginRequiredError silent None)
   \<and> fst (authorize memory_provider web_credentials (QueryParameters silent) ''dev-1'' ''ua''
          (on_device [(alice, session_info (Date 900000) False)] False))
     = Inl (ConsentRequiredError silent None)"
proof -
  have none: "prompt (ri_parameters \<lparr>ri_uri = ''urn:ietf:params:oauth:request_uri:req-1'',
           ri_expiresAt = Date (clock (world s) + 300000), ri_clientId = client_id web_client,
           ri_clientAuth = auth_none, ri_parameters = silent\<rparr>) = Some ''none''" for s :: "World st"
    by (simp add: silent_def)
  have run: "clients (world (on_device accounts down)) = [web_client, native_client]"
    for accounts down
    by (simp add: on_device_def start_def world0_def)
  note inst = authorize_prompt_none [OF memory_getClient_web [OF run] memory_processAuthorizationRequest none
      memory_account_list refl, where deviceMetadata = "''ua''"]
  have a: "fst (authorize memory_provider web_credentials (QueryParameters silent) ''dev-1'' ''ua''
          (on_device [(alice, session_info (Date 900000) True)] False))
     = Inr (AuthorizationResultRedirect ''https://pds.example'' web_client silent ''cod-did:plc:alice'')"
    using inst [of "[(alice, session_info (Date 900000) True)]" False]
    by (simp add: scenario_defs)
  have b: "fst (authorize memory_provider web_credentials (QueryParameters silent) ''dev-1'' ''ua''
          (on_device [(alice, session_info (Date 900000) True), (bob, session_info (Date 900000) True)] False))
     = Inl (AccountSelectionRequiredError silent None)"
    using inst [of "[(alice, session_info (Date 900000) True), (bob, session_info (Date 900000) True)]" False]
    by (simp add: scenario_defs)
  have c: "fst (authorize memory_provider web_credentials (QueryParameters silent) ''dev-1'' ''ua''
          (on_device [] False))
     = Inl (LoginRequiredError silent None)"
    using inst [of "[]" False]
    by (simp add: scenario_defs)
  have d: "fst (authorize memory_provider web_credentials (QueryParameters silent) ''dev-1'' ''ua''
          (on_device [(alice, session_info (Date (- 700000000)) True)] False))
     = Inl (LoginRequiredError silent None)"
    using inst [of "[(alice, session_info (Date (- 700000000)) True)]" False]
    by (simp add: scenario_defs)
  have e: "fst (authorize memory_provider web_credentials (QueryParameters silent) ''dev-1'' ''ua''
          (on_device [(alice, session_info (Date 900000) False)] False))
     = Inl (ConsentRequiredError silent None)"
    using inst [of "[(alice, session_info (Date 900000) False)]" False]
    by (simp add: scenario_defs)
  show ?thesis
    using a b c d e by simp
qed

text \<open>
  C2 as stated fails when the request cannot be deleted: with \<open>prompt=none\<close>, no
  session on the device and the request store down, \<open>authorize\<close> fails with the store's
  failure wrapped as \<open>access_denied\<close>, not with \<open>login_required\<close>.
\<close>

theorem authorize_delete_failure_access_denied:
  "fst (authorize memory_provider web_credentials (QueryParameters silent) ''dev-1'' ''ua''
          (on_device [] True))
     = Inl (AccessDeniedError silent (Some ''store unavailable'') None (Some (Error ''store unavailable'')))
   \<and> error_code (AccessDeniedError silent (Some ''store unavailable'') None
        (Some (Error ''store unavailable''))) = ''access_denied''"
  by (simp add: authorize_def authorize_try_def getSessions_def processAuthorizationRequest_def
      deleteRequest_def accessDeniedCatcher_def prog_defs scenario_defs)

text \<open>
  C7. In \<open>authorize\<close>, once the client and the authorization request are resolved, with
  no \<open>prompt\<close> and with a \<open>login_hint\<close>: if exactly one session of the device matches
  the hint, it needs neither login nor consent, and \<open>setAuthorized\<close> returns a code, then
  \<open>setAuthorized\<close> is the last call made and the result is the redirect with that code,
  not the consent page.
\<close>

theorem authorize_login_hint_sso:
  assumes client: "getClient (clientManager this) (cred_client_id clientCredentials) (world s) = (Inr client, w1)"
    and request: "processAuthorizationRequest this client deviceId query
           (s\<lparr>trace := trace s @ [GetClient (cred_client_id clientCredentials)], world := w1\<rparr>) = (Inr r, s2)"
    and no_prompt: "prompt (ri_parameters r) = None"
    and hint: "login_hint (ri_parameters r) = Some hint"
    and accounts: "account_list (accountManager this) deviceId (world s2) = (Inr accounts, w3)"
    and single: "filter s_matchesHint (sessionsOf this (Date_now this w3) client (ri_parameters r) accounts)
           = [ssoSession]"
    and fresh: "\<not> s_loginRequired ssoSession"
    and consented: "\<not> s_consentRequired ssoSession"
    and code: "setAuthorized (requestManager this) (ri_uri r) client (s_account ssoSession)
                 deviceId deviceMetadata w3 = (Inr code, w4)"
  shows "authorize this clientCredentials query deviceId deviceMetadata s =
           (Inr (AuthorizationResultRedirect (issuer this) client (ri_parameters r) code),
            s2\<lparr>trace := trace s2 @ [AccountList deviceId,
                  SetAuthorized (ri_uri r) (client_id client) (sub (s_account ssoSession)) deviceId],
               world := w4\<rparr>)"
  using no_prompt hint single fresh consented code
  by (simp add: authorize_after_request [OF client request] catch_def authorize_try_def
      getSessions_apply [OF accounts, of client "ri_clientAuth r" "ri_parameters r"]
      Let_def bnd_def call_def ret_def)

text \<open>Two accounts on the device, the hint naming the first, on the in-memory provider.\<close>

theorem authorize_login_hint_sso_witness:
  "authorize memory_provider web_credentials (QueryParameters hinted) ''dev-1'' ''ua''
          (on_device [(alice, session_info (Date 900000) True), (bob, session_info (Date 900000) True)] False)
     = (Inr (AuthorizationResultRedirect ''https://pds.example'' web_client hinted ''cod-did:plc:alice''),
        (on_device [(alice, session_info (Date 900000) True), (bob, session_info (Date 900000) True)] False)
          \<lparr>trace := [GetClient (client_id web_client),
                     CreateAuthorizationRequest (client_id web_client) auth_none hinted (Some ''dev-1'') None,
                     AccountList ''dev-1'',
                     SetAuthorized ''urn:ietf:params:oauth:request_uri:req-1'' (client_id web_client)
                       ''did:plc:alice'' ''dev-1'']\<rparr>)"
proof -
  let ?s = "on_device [(alice, session_info (Date 900000) True), (bob, session_info (Date 900000) True)] False"
  let ?r = "\<lparr>ri_uri = ''urn:ietf:params:oauth:request_uri:req-1'',
           ri_expiresAt = Date (clock (world (?s\<lparr>trace := trace ?s @ [GetClient (cred_client_id web_credentials)],
                 world := world ?s\<rparr>)) + 300000), ri_clientId = client_id web_client,
           ri_clientAuth = auth_none, ri_parameters = hinted\<rparr>"
  let ?ss = "\<lparr>s_account = alice, s_info = session_info (Date 900000) True, s_selected = True,
              s_loginRequired = False, s_consentRequired = False, s_matchesHint = True\<rparr>"
  have run: "clients (world ?s) = [web_client, native_client]"
    by (simp add: on_device_def start_def world0_def)
  have no_prompt: "prompt (ri_parameters ?r) = None"
    by (simp add: hinted_def no_parameters_def)
  have hint: "login_hint (ri_parameters ?r) = Some ''did:plc:alice''"
    by (simp add: hinted_def)
  have single: "filter s_matchesHint
           (sessionsOf memory_provider
              (Date_now memory_provider
                 (world (?s\<lparr>trace := trace ?s @ [GetClient (cred_client_id web_credentials)],
                 world := world ?s\<rparr>\<lparr>trace := trace (?s\<lparr>trace := trace ?s @ [GetClient (cred_client_id web_credentials)],
                 world := world ?s\<rparr>) @ [CreateAuthorizationRequest (client_id web_client) auth_none hinted (Some ''dev-1'') None]\<rparr>)))
              web_client (ri_parameters ?r)
              (device_accounts (world (?s\<lparr>trace := trace ?s @ [GetClient (cred_client_id web_credentials)],
                 world := world ?s\<rparr>\<lparr>trace := trace (?s\<lparr>trace := trace ?s @ [GetClient (cred_client_id web_credentials)],
                 world := world ?s\<rparr>) @ [CreateAuthorizationRequest (client_id web_client) auth_none hinted (Some ''dev-1'') None]\<rparr>))))
         = [?ss]"
    by (simp add: scenario_defs)
  have fresh: "\<not> s_loginRequired ?ss" and consented: "\<not> s_consentRequired ?ss"
    by simp_all
  have code: "setAuthorized (requestManager memory_provider) (ri_uri ?r) web_client (s_account ?ss)
                ''dev-1'' ''ua'' (world ?s) = (Inr ''cod-did:plc:alice'', world ?s)"
    by (simp add: memory_defs)
  show ?thesis
    using authorize_login_hint_sso [OF memory_getClient_web [OF run] memory_processAuthorizationRequest no_prompt hint
        memory_account_list single fresh consented]
      code
    by (simp add: scenario_defs)
qed

section \<open>Properties of the code grant, introspection and revocation\<close>

text \<open>
  C10. Whenever \<open>codeGrant\<close> fails, the last call it made is \<open>tokenManager.revoke\<close> on
  the code of the request; and whenever its \<open>try\<close> block fails, at any step, with an
  error, \<open>codeGrant\<close> calls \<open>tokenManager.revoke\<close> on that code next and then throws
  that error (or the error of the revocation, should it fail).
\<close>

theorem codeGrant_failure_revokes:
  "(fst (codeGrant this client clientAuth clientMetadata input dpopJkt s) = Inl e
      \<longrightarrow> trace (snd (codeGrant this client clientAuth clientMetadata input dpopJkt s)) \<noteq> []
        \<and> last (trace (snd (codeGrant this client clientAuth clientMetadata input dpopJkt s)))
            = TokenRevoke (input_code input))
   \<and> (codeGrant_try this client clientAuth clientMetadata input dpopJkt s = (Inl err, s1)
      \<longrightarrow> codeGrant this client clientAuth clientMetadata input dpopJkt s =
            ((case fst (token_revoke (tokenManager this) (input_code input) (world s1)) of
                Inl e' \<Rightarrow> Inl e' | Inr _ \<Rightarrow> Inl err),
             s1\<lparr>trace := trace s1 @ [TokenRevoke (input_code input)],
                world := snd (token_revoke (tokenManager this) (input_code input) (world s1))\<rparr>))"
  by (auto simp: codeGrant_def catch_def bnd_def call_def throw_def split: prod.splits sum.splits)

text \<open>An unknown code on the in-memory provider: the lookup fails, the code is revoked.\<close>

theorem codeGrant_failure_revokes_witness:
  "fst (codeGrant memory_provider web_client auth_none ''ua'' (AuthorizationCodeGrant ''code-x'' None)
          None (start world0)) = Inl (InvalidGrantError (Some ''Invalid code'') None)
   \<and> last (trace (snd (codeGrant memory_provider web_client auth_none ''ua''
                          (AuthorizationCodeGrant ''code-x'' None) None (start world0))))
       = TokenRevoke ''code-x''
   \<and> revoked (world (snd (codeGrant memory_provider web_client auth_none ''ua''
                          (AuthorizationCodeGrant ''code-x'' None) None (start world0)))) = [''code-x'']"
proof -
  have t: "codeGrant_try memory_provider web_client auth_none ''ua'' (AuthorizationCodeGrant ''code-x'' None)
             None (start world0)
           = (Inl (InvalidGrantError (Some ''Invalid code'') None),
              (start world0)\<lparr>trace := [FindCode (client_id web_client) auth_none ''code-x'']\<rparr>)"
    by (simp add: codeGrant_try_def prog_defs memory_defs)
  have r: "token_revoke (tokenManager memory_provider) ''code-x'' world0
           = (Inr (), world0\<lparr>revoked := [''code-x'']\<rparr>)"
    by (simp add: memory_defs)
  have w: "world ((start world0)\<lparr>trace := [FindCode (client_id web_client) auth_none ''code-x'']\<rparr>) = world0"
    by (simp add: start_def)
  have g: "codeGrant memory_provider web_client auth_none ''ua'' (AuthorizationCodeGrant ''code-x'' None)
             None (start world0)
           = (Inl (InvalidGrantError (Some ''Invalid code'') None),
              (start world0)\<lparr>trace := [FindCode (client_id web_client) auth_none ''code-x'',
                                         TokenRevoke ''code-x''],
                              world := world0\<lparr>revoked := [''code-x'']\<rparr>\<rparr>)"
    using codeGrant_failure_revokes [of memory_provider web_client auth_none "''ua''" "AuthorizationCodeGrant ''code-x'' None"
        None "start world0" "InvalidGrantError (Some ''Invalid code'') None"
        "InvalidGrantError (Some ''Invalid code'') None"
        "(start world0)\<lparr>trace := [FindCode (client_id web_client) auth_none ''code-x'']\<rparr>"]
      t
    by (simp add: w r)
  show ?thesis
    by (simp add: g)
qed

text \<open>
  C4. In \<open>introspect\<close>, once the client is authenticated with a method other than
  \<open>none\<close>, every error thrown by \<open>tokenManager.clientTokenInfo\<close> gives the response
  \<open>{active: false}\<close>, the same for every error, after a \<open>setTimeout\<close> of 750 ms less
  the time elapsed since the lookup started.
\<close>

theorem introspect_error_inactive:
  assumes "authenticateClient this credentials s = (Inr (client, clientAuth), s1)"
    and "auth_method clientAuth \<noteq> ''none''"
    and "clientTokenInfo (tokenManager this) client clientAuth tkn (world s1) = (Inl err, w2)"
  shows "introspect this credentials tkn s =
           (Inr Inactive,
            s1\<lparr>trace := trace s1 @ [ClientTokenInfo (client_id client) tkn,
                                     SetTimeout (750 - (Date_now this w2 - Date_now this (world s1)))],
               world := setTimeout this (750 - (Date_now this w2 - Date_now this (world s1))) w2\<rparr>)"
  using assms
  by (simp add: introspect_def bnd_def catch_def call_def gets_def ret_def sleep_def)

text \<open>An unknown token on the in-memory provider, whose failed lookup takes 20 ms.\<close>

theorem introspect_error_inactive_witness:
  "fst (introspect memory_provider web_jwt_credentials ''tok-x'' (start world0)) = Inr Inactive
   \<and> last (trace (snd (introspect memory_provider web_jwt_credentials ''tok-x'' (start world0))))
       = SetTimeout 730"
proof -
  have 2: "auth_method jwt_auth \<noteq> ''none''"
    by (simp add: memory_defs)
  have 3: "clientTokenInfo (tokenManager memory_provider) web_client jwt_auth ''tok-x''
             (world ((start (world0\<lparr>replay := [''auth:jti-9'']\<rparr>))
        \<lparr>trace := [GetClient (client_id web_client), VerifyCredentials (client_id web_client),
                   UniqueAuth ''jti-9'' (client_id web_client)]\<rparr>))
           = (Inl (InvalidRequestError (Some ''Invalid token'') None),
              world0\<lparr>replay := [''auth:jti-9''], clock := 1000020\<rparr>)"
    by (simp add: memory_defs)
  show ?thesis
    using introspect_error_inactive [OF memory_authenticate_jwt 2 3] by (simp add: memory_defs)
qed

text \<open>
  C8, as amended. Take a request to \<open>POST /oauth/revoke\<close> that accepts a JSON response
  and whose body parses, and a router whose error handler, if there is one, returns
  without writing the response. If the body validates as a token identification, the
  handler answers with status 200 and the body \<open>{}\<close>, also when \<open>tokenManager.revoke\<close>
  fails; that failure is passed to the error handler when there is one, and is
  otherwise dropped. If the body does not validate, and nothing is sent yet, the handler
  revokes nothing and answers with the status and the body built from an
  \<open>InvalidRequestError\<close> (\<open>invalid_request\<close>).
\<close>

theorem revoke_post_responds_200:
  assumes nego: "negotiateContent lib req [''application/json'']"
    and parse: "parseHttpRequest lib req [''json'', ''urlencoded''] = Inr payload"
    and quiet: "\<forall>handler. onError options = Some handler \<longrightarrow>
             (\<forall>r e m w. fst (handler req r e m w) = Inr () \<and> fst (snd (handler req r e m w)) = r)"
  shows "(oauthTokenIdentificationSchema lib payload = Inr tkn \<longrightarrow>
            fst (oauth_revoke_post server lib options req s) = Inr ()
          \<and> statusCode (res (snd (oauth_revoke_post server lib options req s))) = Some 200
          \<and> body (res (snd (oauth_revoke_post server lib options req s))) = Some (JObject [])
          \<and> trace (snd (oauth_revoke_post server lib options req s)) =
              trace s @ [NextDpopNonce, TokenRevoke tkn] @
                (case (fst (token_revoke (tokenManager server) tkn
                              (snd (nextDpopNonce server (world s)))), onError options) of
                   (Inl err, Some handler) \<Rightarrow> [OnError err ''Failed to revoke token'']
                 | _ \<Rightarrow> []))
       \<and> (\<forall>cause invalid.
            oauthTokenIdentificationSchema lib payload = Inl cause \<and> \<not> headersSent (res s)
            \<and> invalid = InvalidRequestError
                 (Some (if truthy (extractZodErrorMessage cause)
                        then string_of (extractZodErrorMessage cause)
                        else ''Input validation error'')) (Some cause)
          \<longrightarrow> fst (oauth_revoke_post server lib options req s) = Inr ()
            \<and> statusCode (res (snd (oauth_revoke_post server lib options req s)))
                = Some (buildErrorStatus lib invalid)
            \<and> body (res (snd (oauth_revoke_post server lib options req s)))
                = Some (buildErrorPayload lib invalid)
            \<and> error_code invalid = ''invalid_request''
            \<and> trace (snd (oauth_revoke_post server lib options req s)) =
                trace s @ [NextDpopNonce] @
                  (case onError options of
                     None \<Rightarrow> []
                   | Some handler \<Rightarrow> [OnError invalid ''OAuth request error'']))"
proof -
  obtain n w0 where n: "nextDpopNonce server (world s) = (n, w0)"
    by (cases "nextDpopNonce server (world s)")
  obtain r w1 where r: "token_revoke (tokenManager server) tkn w0 = (r, w1)"
    by (cases "token_revoke (tokenManager server) tkn w0")
  note defs = oauth_revoke_post_def oauthHandler_def jsonHandler_def corsHeaders_def revoke_def
      onError_call_def bnd_def catch_def call_def throw_def lift_def ret_def setHeader_def
      appendHeader_def writeJson_def res_headersSent_def throwInvalidRequest_def
  show ?thesis
  proof (cases "onError options")
    case None
    show ?thesis
    proof (cases r)
      case (Inl err)
      with nego parse n r None show ?thesis by (simp add: defs)
    next
      case (Inr u)
      with nego parse n r None show ?thesis by (simp add: defs)
    qed
  next
    case (Some handler)
    define after where "after = (\<lambda>response e m w. snd (snd (handler req response e m w)))"
    have handler: "handler req response e m w = (Inr (), response, after response e m w)"
      for response e m w
      using quiet Some by (simp add: after_def prod_eq_iff)
    show ?thesis
    proof (cases r)
      case (Inl err)
      with nego parse n r Some show ?thesis by (simp add: defs handler)
    next
      case (Inr u)
      with nego parse n r Some show ?thesis by (simp add: defs handler)
    qed
  qed
qed

text \<open>
  A revocation while the token store is down, and a request without \<open>token\<close>, both
  with a logger as error handler.
\<close>

theorem revoke_post_responds_200_witness:
  "fst (oauth_revoke_post memory_provider memory_lib \<lparr>onError = Some logger\<rparr> (revoke_request ''tok-1'')
          (start (world0\<lparr>store_down := True\<rparr>))) = Inr ()
   \<and> statusCode (res (snd (oauth_revoke_post memory_provider memory_lib \<lparr>onError = Some logger\<rparr>
          (revoke_request ''tok-1'') (start (world0\<lparr>store_down := True\<rparr>))))) = Some 200
   \<and> body (res (snd (oauth_revoke_post memory_provider memory_lib \<lparr>onError = Some logger\<rparr>
          (revoke_request ''tok-1'') (start (world0\<lparr>store_down := True\<rparr>))))) = Some (JObject [])
   \<and> trace (snd (oauth_revoke_post memory_provider memory_lib \<lparr>onError = Some logger\<rparr>
          (revoke_request ''tok-1'') (start (world0\<lparr>store_down := True\<rparr>))))
       = [NextDpopNonce, TokenRevoke ''tok-1'', OnError (Error ''store unavailable'') ''Failed to revoke token'']
   \<and> statusCode (res (snd (oauth_revoke_post memory_provider memory_lib \<lparr>onError = Some logger\<rparr>
          (revoke_request []) (start world0)))) = Some 400
   \<and> trace (snd (oauth_revoke_post memory_provider memory_lib \<lparr>onError = Some logger\<rparr>
          (revoke_request []) (start world0)))
       = [NextDpopNonce,
          OnError (InvalidRequestError (Some (''Validation of '' @ [CHR 0x22] @ ''token'' @ [CHR 0x22]
                      @ '' body parameter failed: Invalid input''))
                    (Some (ZodError [([''body'', ''token''], ''Invalid input'')])))
            ''OAuth request error'']"
proof -
  have quiet: "\<forall>handler. onError \<lparr>onError = Some logger\<rparr> = Some handler \<longrightarrow>
             (\<forall>r e m w. fst (handler req r e m w) = Inr () \<and> fst (snd (handler req r e m w)) = r)"
    for req
    by (simp add: logger_def)
  have 1: "negotiateContent memory_lib (revoke_request content) [''application/json'']" for content
    by (simp add: memory_lib_def revoke_request_def)
  have 2: "parseHttpRequest memory_lib (revoke_request ''tok-1'') [''json'', ''urlencoded'']
             = Inr (JObject [(''token'', JString ''tok-1'')])"
    by (simp add: memory_lib_def revoke_request_def)
  have 3: "parseHttpRequest memory_lib (revoke_request []) [''json'', ''urlencoded''] = Inr (JObject [])"
    by (simp add: memory_lib_def revoke_request_def)
  have a: "oauthTokenIdentificationSchema memory_lib (JObject [(''token'', JString ''tok-1'')]) = Inr ''tok-1''"
    by (simp add: memory_lib_def)
  have b: "oauthTokenIdentificationSchema memory_lib (JObject [])
             = Inl (ZodError [([''body'', ''token''], ''Invalid input'')])"
    by (simp add: memory_lib_def)
  have c: "\<not> headersSent (res (start world0))"
    by (simp add: start_def)
  show ?thesis
    using revoke_post_responds_200 [OF 1 2 quiet, of "''tok-1''" memory_provider
        "start (world0\<lparr>store_down := True\<rparr>)", THEN conjunct1]
      revoke_post_responds_200 [OF 1 3 quiet, of "''tok-1''" memory_provider "start world0",
        THEN conjunct2]
      a b c
    by (simp add: memory_provider_def memory_tokenManager_def memory_lib_def start_def world0_def)
qed

text \<open>
  C8 as stated fails for a request without \<open>token\<close>: the validation of the body throws
  an \<open>InvalidRequestError\<close> and the handler answers with the status of that error, 400,
  not with 200.
\<close>

theorem revoke_post_invalid_request_400:
  "statusCode (res (snd (oauth_revoke_post memory_provider memory_lib \<lparr>onError = None\<rparr>
          (revoke_request []) (start world0)))) = Some 400"
  by (simp add: oauth_revoke_post_def oauthHandler_def jsonHandler_def corsHeaders_def revoke_def
      onError_call_def setHeader_def appendHeader_def writeJson_def res_headersSent_def
      throwInvalidRequest_def prog_defs memory_defs)

end
